theory Spec2Isabelle
  imports Complex_Main
begin

section \<open>Python values, exceptions and string primitives\<close>

text \<open>
  The module \<^verbatim>\<open>avatar/tools/react/api.py\<close> routes a completion request to one of four
  backend callers, each with its own retry loop. Exceptions are values of type \<open>exc\<close>;
  a call returns \<open>Inl e\<close> when it raises \<open>e\<close>. \<open>SdkError\<close> stands for whatever exception a
  vendor library raises.
\<close>

datatype exc =
    ValueError string
  | ImportError string
  | IndexError string
  | KeyError string
  | TypeError string
  | UnboundLocalError string
  | JSONDecodeError string
  | SdkError string

datatype json =
    JNull
  | JBool bool
  | JInt int
  | JStr string
  | JArr "json list"
  | JObj "(string \<times> json) list"

text \<open>\<^verbatim>\<open>s.find(c)\<close> for a one-character pattern: the first index, or \<open>-1\<close>.\<close>

fun py_find :: "char \<Rightarrow> string \<Rightarrow> int" where
  "py_find c [] = - 1"
| "py_find c (x # xs) =
     (if x = c then 0 else (let r = py_find c xs in if r < 0 then - 1 else r + 1))"

text \<open>\<^verbatim>\<open>s.rfind(c)\<close>: the last index, or \<open>-1\<close>.\<close>

definition py_rfind :: "char \<Rightarrow> string \<Rightarrow> int" where
  "py_rfind c s =
     (let r = py_find c (rev s) in if r < 0 then - 1 else int (length s) - 1 - r)"

text \<open>
  A slice bound as Python resolves it against a sequence of length \<open>n\<close>: a negative bound
  counts from the end, and the result is clipped to \<open>0..n\<close>.
\<close>

definition py_bound :: "int \<Rightarrow> nat \<Rightarrow> nat" where
  "py_bound i n = (if i < 0 then nat (max 0 (i + int n)) else min (nat i) n)"

text \<open>\<^verbatim>\<open>s[i:j]\<close>; empty when the resolved start is not before the resolved stop.\<close>

definition py_slice :: "string \<Rightarrow> int \<Rightarrow> int \<Rightarrow> string" where
  "py_slice s i j =
     (let a = py_bound i (length s); b = py_bound j (length s) in take (b - a) (drop a s))"

text \<open>\<^verbatim>\<open>s.lower()\<close> on ASCII letters.\<close>

definition lower_char :: "char \<Rightarrow> char" where
  "lower_char c =
     (case map_of (zip ''ABCDEFGHIJKLMNOPQRSTUVWXYZ'' ''abcdefghijklmnopqrstuvwxyz'') c of
        None \<Rightarrow> c
      | Some l \<Rightarrow> l)"

definition py_lower :: "string \<Rightarrow> string" where
  "py_lower s = map lower_char s"

fun starts_with :: "string \<Rightarrow> string \<Rightarrow> bool" where
  "starts_with [] s = True"
| "starts_with (p # ps) [] = False"
| "starts_with (p # ps) (c # cs) = (p = c \<and> starts_with ps cs)"

text \<open>\<^verbatim>\<open>pat in s\<close> on strings: \<open>pat\<close> occurs as a contiguous substring.\<close>

fun sub_in :: "string \<Rightarrow> string \<Rightarrow> bool" where
  "sub_in pat [] = (pat = [])"
| "sub_in pat (c # cs) = (starts_with pat (c # cs) \<or> sub_in pat cs)"

text \<open>\<^verbatim>\<open>model.split("/", 1)[1]\<close>: the text after the first slash; \<open>None\<close> is the IndexError
  of a model identifier without a slash.\<close>

fun split_1 :: "string \<Rightarrow> string option" where
  "split_1 [] = None"
| "split_1 (c # cs) = (if c = CHR ''/'' then Some cs else split_1 cs)"

section \<open>A reference JSON decoder\<close>

text \<open>
  \<^verbatim>\<open>json.loads\<close> belongs to the standard library, so the callers below take the decoder
  from the world they run in. \<open>json_decode\<close> is a decoder for the JSON subset without
  string escapes, fractions and exponents, used to run the callers on concrete texts. The
  recursion is bounded by a fuel of the text's length plus one, which a value nested in
  the text never exceeds.
\<close>

definition is_ws :: "char \<Rightarrow> bool" where
  "is_ws c = (c = CHR '' '' \<or> c = CHR 0x09 \<or> c = CHR 0x0A \<or> c = CHR 0x0D)"

fun skip_ws :: "string \<Rightarrow> string" where
  "skip_ws [] = []"
| "skip_ws (c # cs) = (if is_ws c then skip_ws cs else c # cs)"

definition is_digit :: "char \<Rightarrow> bool" where
  "is_digit c = (let n = (of_char c :: nat) in 48 \<le> n \<and> n \<le> 57)"

fun digits_value :: "nat \<Rightarrow> string \<Rightarrow> nat" where
  "digits_value acc [] = acc"
| "digits_value acc (c # cs) = digits_value (10 * acc + (of_char c - 48)) cs"

text \<open>An unsigned integer literal: digits, with no leading zero before another digit.\<close>

definition parse_nat :: "string \<Rightarrow> (nat \<times> string) option" where
  "parse_nat s =
     (let ds = takeWhile is_digit s; r = dropWhile is_digit s in
      if ds = [] then None
      else if hd ds = CHR ''0'' \<and> tl ds \<noteq> [] then None
      else Some (digits_value 0 ds, r))"

text \<open>The body of a string literal after its opening quote, up to the closing quote.\<close>

fun parse_string_body :: "string \<Rightarrow> (string \<times> string) option" where
  "parse_string_body [] = None"
| "parse_string_body (c # cs) =
     (if c = CHR 0x22 then Some ([], cs)
      else if c = CHR 0x5C \<or> (of_char c :: nat) < 32 then None
      else (case parse_string_body cs of
              None \<Rightarrow> None
            | Some (body, r) \<Rightarrow> Some (c # body, r)))"

fun parse_value :: "nat \<Rightarrow> string \<Rightarrow> (json \<times> string) option"
  and parse_elements :: "nat \<Rightarrow> string \<Rightarrow> (json list \<times> string) option"
  and parse_members :: "nat \<Rightarrow> string \<Rightarrow> ((string \<times> json) list \<times> string) option"
where
  "parse_value 0 s = None"
| "parse_value (Suc n) s =
     (case skip_ws s of
        [] \<Rightarrow> None
      | c # cs \<Rightarrow>
          if c = CHR ''{'' then
            (case skip_ws cs of
               [] \<Rightarrow> None
             | d # ds \<Rightarrow>
                 if d = CHR ''}'' then Some (JObj [], ds)
                 else (case parse_members n (d # ds) of
                         None \<Rightarrow> None
                       | Some (ms, r) \<Rightarrow> Some (JObj ms, r)))
          else if c = CHR ''['' then
            (case skip_ws cs of
               [] \<Rightarrow> None
             | d # ds \<Rightarrow>
                 if d = CHR '']'' then Some (JArr [], ds)
                 else (case parse_elements n (d # ds) of
                         None \<Rightarrow> None
                       | Some (vs, r) \<Rightarrow> Some (JArr vs, r)))
          else if c = CHR 0x22 then
            (case parse_string_body cs of
               None \<Rightarrow> None
             | Some (body, r) \<Rightarrow> Some (JStr body, r))
          else if starts_with ''true'' (c # cs) then Some (JBool True, drop 4 (c # cs))
          else if starts_with ''false'' (c # cs) then Some (JBool False, drop 5 (c # cs))
          else if starts_with ''null'' (c # cs) then Some (JNull, drop 4 (c # cs))
          else if c = CHR ''-'' then
            (case parse_nat cs of
               None \<Rightarrow> None
             | Some (k, r) \<Rightarrow> Some (JInt (- int k), r))
          else (case parse_nat (c # cs) of
                  None \<Rightarrow> None
                | Some (k, r) \<Rightarrow> Some (JInt (int k), r)))"
| "parse_elements 0 s = None"
| "parse_elements (Suc n) s =
     (case parse_value n s of
        None \<Rightarrow> None
      | Some (v, r) \<Rightarrow>
          (case skip_ws r of
             [] \<Rightarrow> None
           | c # cs \<Rightarrow>
               if c = CHR '','' then
                 (case parse_elements n cs of
                    None \<Rightarrow> None
                  | Some (vs, r') \<Rightarrow> Some (v # vs, r'))
               else if c = CHR '']'' then Some ([v], cs)
               else None))"
| "parse_members 0 s = None"
| "parse_members (Suc n) s =
     (case skip_ws s of
        [] \<Rightarrow> None
      | q # cs \<Rightarrow>
          if q \<noteq> CHR 0x22 then None
          else (case parse_string_body cs of
                  None \<Rightarrow> None
                | Some (k, r) \<Rightarrow>
                    (case skip_ws r of
                       [] \<Rightarrow> None
                     | c # r1 \<Rightarrow>
                         if c \<noteq> CHR '':'' then None
                         else (case parse_value n r1 of
                                 None \<Rightarrow> None
                               | Some (v, r2) \<Rightarrow>
                                   (case skip_ws r2 of
                                      [] \<Rightarrow> None
                                    | d # r3 \<Rightarrow>
                                        if d = CHR '','' then
                                          (case parse_members n r3 of
                                             None \<Rightarrow> None
                                           | Some (ms, r4) \<Rightarrow> Some ((k, v) # ms, r4))
                                        else if d = CHR ''}'' then Some ([(k, v)], r3)
                                        else None)))))"

text \<open>The whole text must be one value, with white space around it and nothing else.\<close>

definition json_decode :: "string \<Rightarrow> exc + json" where
  "json_decode s =
     (case parse_value (Suc (length s)) s of
        None \<Rightarrow> Inl (JSONDecodeError ''Expecting value'')
      | Some (v, r) \<Rightarrow>
          if skip_ws r = [] then Inr v else Inl (JSONDecodeError ''Extra data''))"

section \<open>Requests, responses and the world a caller runs in\<close>

text \<open>
  A turn is a dictionary with the keys \<^verbatim>\<open>role\<close> and \<^verbatim>\<open>content\<close>; the multimodal backend's
  turns have \<^verbatim>\<open>role\<close> and \<^verbatim>\<open>parts\<close>. A message is a prompt string or a list of turns.
\<close>

record turn =
  role :: string
  content :: string

record gemini_turn =
  g_role :: string
  parts :: "string list"

datatype message = Str string | Turns "turn list"

text \<open>
  The keyword arguments of a call. \<open>history = None\<close> is Python's \<^verbatim>\<open>None\<close>. \<open>kwargs\<close> holds
  the names of further keyword arguments, which the callers forward to the backend
  untouched.
\<close>

record request =
  message :: message
  model :: string
  max_tokens :: int
  temperature :: real
  max_retry :: int
  sleep_time :: nat
  json_object :: bool
  history :: "turn list option"
  tools :: "json list"
  return_raw :: bool
  kwargs :: "string list"

text \<open>What each backend is sent.\<close>

datatype openai_request =
  OpenAI_Request (oa_messages: "turn list") (oa_model: string) (oa_temperature: real)
    (oa_max_tokens: int) (oa_json_mode: bool)

datatype anthropic_request =
  Anthropic_Request (an_messages: "turn list") (an_model: string) (an_temperature: real)
    (an_max_tokens: int) (an_tools: "json list") (an_kwargs: "string list")

text \<open>
  The multimodal backend is called in one of two shapes: a one-shot generation from a
  text, or a chat session seeded with earlier turns to which the last text is sent.
\<close>

datatype gemini_request =
    Generate_Content (ge_model: string) (ge_prompt: string) (ge_max_tokens: int)
      (ge_temperature: real) (ge_kwargs: "string list")
  | Send_Message (ge_model: string) (ge_history: "gemini_turn list") (ge_prompt: string)
      (ge_max_tokens: int) (ge_temperature: real) (ge_kwargs: "string list")

text \<open>
  The local model is called through the handle of the loaded model, with the token ids
  of the prompt.
\<close>

datatype hf_request =
  HF_Generate (hf_handle: nat) (hf_input: "nat list") (hf_temperature: real)
    (hf_max_new_tokens: int) (hf_kwargs: "string list")

text \<open>
  Responses: a chat completion is the list of its choices' contents; a Claude-style
  response is its list of content blocks; a multimodal response is its text, absent when
  reading the \<^verbatim>\<open>text\<close> attribute raises.
\<close>

datatype block = Text_Block string | Tool_Use string

datatype gemini_response = Gemini_Response "string option"

datatype pyval =
    Text string
  | Json json
  | Raw_Anthropic "block list"
  | Raw_Gemini gemini_response

text \<open>
  Everything outside the module: the JSON decoder, the environment, and the backends.
  A backend's answer can depend on the attempt's index and on the request. \<open>None\<close> for
  \<open>anthropic_client\<close> and \<open>genai_configure\<close> means that the call does not raise. The cache
  of local models holds a pair of handles per checkpoint name.
\<close>

record world =
  json_loads :: "string \<Rightarrow> exc + json"
  openai_create :: "nat \<Rightarrow> openai_request \<Rightarrow> exc + string list"
  anthropic_client :: "exc option"
  anthropic_create :: "nat \<Rightarrow> anthropic_request \<Rightarrow> exc + block list"
  gemini_api_key :: "string option"
  genai_present :: bool
  genai_configure :: "exc option"
  gemini_call :: "nat \<Rightarrow> gemini_request \<Rightarrow> exc + gemini_response"
  model_from_pretrained :: "string \<Rightarrow> exc + nat"
  tokenizer_from_pretrained :: "string \<Rightarrow> exc + nat"
  tokenize :: "nat \<Rightarrow> message \<Rightarrow> exc + nat list"
  hf_generate :: "nat \<Rightarrow> hf_request \<Rightarrow> exc + string"

type_synonym cache = "string \<rightharpoonup> nat \<times> nat"

text \<open>The effects of a call, in the order they happen.\<close>

datatype line =
    Retry_Line nat exc nat
  | Hf_Retry_Line nat exc
  | Json_Error_Line nat exc
  | Result_Line pyval
  | Exc_Line exc
  | Msg_Line string

datatype event =
    Warned string
  | Printed line
  | Slept nat
  | Called_OpenAI openai_request
  | Called_Anthropic anthropic_request
  | Called_Gemini gemini_request
  | Loaded_Model string
  | Loaded_Tokenizer string
  | Called_HF hf_request

type_synonym outcome = "(exc + pyval) \<times> event list"

definition after :: "event list \<Rightarrow> outcome \<Rightarrow> outcome" where
  "after evs out = (fst out, evs @ snd out)"

text \<open>\<^verbatim>\<open>xs[0]\<close> raises IndexError on an empty list.\<close>

definition first :: "'a list \<Rightarrow> exc + 'a" where
  "first xs = (case xs of [] \<Rightarrow> Inl (IndexError ''list index out of range'') | x # _ \<Rightarrow> Inr x)"

text \<open>
  A local variable at the end of a function: never assigned or deleted (unbound), bound to
  \<^verbatim>\<open>None\<close>, or bound to an exception. Python deletes the target of
  \<^verbatim>\<open>except Exception as e\<close> when the handler is left, so after a handler \<^verbatim>\<open>e\<close> is unbound.
  \<^verbatim>\<open>raise\<close> of an unbound name is an UnboundLocalError, and of \<^verbatim>\<open>None\<close> a TypeError.
\<close>

datatype pyvar = Unbound | Bound_None | Bound_Exc exc

definition raise_var :: "string \<Rightarrow> pyvar \<Rightarrow> exc" where
  "raise_var name v =
     (case v of
        Unbound \<Rightarrow> UnboundLocalError name
      | Bound_None \<Rightarrow> TypeError ''exceptions must derive from BaseException''
      | Bound_Exc e \<Rightarrow> e)"

section \<open>The OpenAI-style caller\<close>

definition gpt_message :: "request \<Rightarrow> message" where
  "gpt_message rq =
     (if json_object rq then
        (case message rq of
           Str s \<Rightarrow>
             if \<not> sub_in ''json'' (py_lower s)
             then Str (''You are a helpful assistant designed to output JSON. '' @ s)
             else Str s
         | Turns ts \<Rightarrow> Turns ts)
      else message rq)"

definition gpt_messages :: "request \<Rightarrow> turn list" where
  "gpt_messages rq =
     (let messages =
        (case gpt_message rq of
           Str s \<Rightarrow> [\<lparr>role = ''user'', content = s\<rparr>]
         | Turns ts \<Rightarrow> ts)
      in case history rq of
           None \<Rightarrow> messages
         | Some h \<Rightarrow> if h \<noteq> [] then h @ messages else messages)"

definition gpt_request :: "request \<Rightarrow> openai_request" where
  "gpt_request rq =
     OpenAI_Request (gpt_messages rq) (model rq) (temperature rq) (max_tokens rq)
       (json_object rq)"

text \<open>The text between the first opening and the last closing brace, bounds included.\<close>

definition extract_json :: "string \<Rightarrow> string" where
  "extract_json result =
     py_slice result (py_find CHR ''{'' result) (py_rfind CHR ''}'' result + 1)"

text \<open>
  The loop over \<^verbatim>\<open>range(max_retry)\<close>, given the indices still to run and the local
  variable \<^verbatim>\<open>error\<close>. A failed call is logged and slept on; a failed decoding is logged
  only. After the last index the function raises \<^verbatim>\<open>error\<close>.
\<close>

fun gpt_attempts ::
  "world \<Rightarrow> openai_request \<Rightarrow> bool \<Rightarrow> nat \<Rightarrow> nat list \<Rightarrow> pyvar \<Rightarrow> outcome" where
  "gpt_attempts w q js st [] error = (Inl (raise_var ''error'' error), [])"
| "gpt_attempts w q js st (cnt # cnts) error =
     (case (case openai_create w cnt q of Inl e \<Rightarrow> Inl e | Inr choices \<Rightarrow> first choices) of
        Inl e \<Rightarrow>
          after [Called_OpenAI q, Printed (Retry_Line cnt e st), Slept st]
            (gpt_attempts w q js st cnts (Bound_Exc e))
      | Inr result \<Rightarrow>
          if js then
            (case json_loads w (extract_json result) of
               Inr v \<Rightarrow> (Inr (Json v), [Called_OpenAI q])
             | Inl e \<Rightarrow>
                 after [Called_OpenAI q, Printed (Result_Line (Text (extract_json result))),
                        Printed (Json_Error_Line cnt e)]
                   (gpt_attempts w q js st cnts error))
          else (Inr (Text result), [Called_OpenAI q]))"

definition get_gpt_output :: "world \<Rightarrow> request \<Rightarrow> outcome" where
  "get_gpt_output w rq =
     gpt_attempts w (gpt_request rq) (json_object rq) (sleep_time rq)
       [0..<nat (max_retry rq)] Unbound"

section \<open>The Claude-style caller\<close>

definition claude_messages :: "request \<Rightarrow> turn list" where
  "claude_messages rq =
     (let messages =
        (case message rq of
           Str s \<Rightarrow>
             [\<lparr>role = ''user'',
               content =
                 (if json_object rq
                  then ''You are a helpful assistant designed to output in JSON format.'' @ s
                  else s)\<rparr>]
         | Turns ts \<Rightarrow> ts)
      in case history rq of None \<Rightarrow> messages | Some h \<Rightarrow> h @ messages)"

definition claude_request :: "request \<Rightarrow> anthropic_request" where
  "claude_request rq =
     Anthropic_Request (claude_messages rq) (model rq) (temperature rq) (max_tokens rq)
       (tools rq) (kwargs rq)"

text \<open>\<^verbatim>\<open>result.to_dict()["content"][0]['text']\<close>.\<close>

definition block_text :: "block list \<Rightarrow> exc + string" where
  "block_text blocks =
     (case first blocks of
        Inl e \<Rightarrow> Inl e
      | Inr (Text_Block t) \<Rightarrow> Inr t
      | Inr (Tool_Use _) \<Rightarrow> Inl (KeyError ''text''))"

text \<open>
  The body of the first \<^verbatim>\<open>try\<close>. When the client could not be built, its name is
  unbound and the attempt raises before anything is sent.
\<close>

definition claude_try :: "world \<Rightarrow> bool \<Rightarrow> nat \<Rightarrow> anthropic_request \<Rightarrow> exc + pyval" where
  "claude_try w raw cnt q =
     (case anthropic_client w of
        Some _ \<Rightarrow> Inl (UnboundLocalError ''anthropic_client'')
      | None \<Rightarrow>
          (case anthropic_create w cnt q of
             Inl e \<Rightarrow> Inl e
           | Inr blocks \<Rightarrow>
               if \<not> raw then (case block_text blocks of Inl e \<Rightarrow> Inl e | Inr t \<Rightarrow> Inr (Text t))
               else Inr (Raw_Anthropic blocks)))"

definition claude_sent :: "world \<Rightarrow> anthropic_request \<Rightarrow> event list" where
  "claude_sent w q = (case anthropic_client w of Some _ \<Rightarrow> [] | None \<Rightarrow> [Called_Anthropic q])"

text \<open>\<^verbatim>\<open>json.loads(result)\<close>; its argument must be a string.\<close>

definition loads :: "world \<Rightarrow> pyval \<Rightarrow> exc + pyval" where
  "loads w v =
     (case v of
        Text t \<Rightarrow> (case json_loads w t of Inl e \<Rightarrow> Inl e | Inr j \<Rightarrow> Inr (Json j))
      | _ \<Rightarrow> Inl (TypeError ''the JSON object must be str, bytes or bytearray''))"

fun claude_attempts ::
  "world \<Rightarrow> anthropic_request \<Rightarrow> bool \<Rightarrow> bool \<Rightarrow> nat \<Rightarrow> nat list \<Rightarrow> pyvar \<Rightarrow> outcome" where
  "claude_attempts w q raw js st [] e = (Inl (raise_var ''e'' e), [])"
| "claude_attempts w q raw js st (cnt # cnts) e =
     (case claude_try w raw cnt q of
        Inl ex \<Rightarrow>
          after (claude_sent w q @ [Printed (Retry_Line cnt ex st), Slept st])
            (claude_attempts w q raw js st cnts Unbound)
      | Inr result \<Rightarrow>
          if js \<and> \<not> raw then
            (case loads w result of
               Inr v \<Rightarrow> (Inr v, claude_sent w q)
             | Inl ex \<Rightarrow>
                 after (claude_sent w q @
                        [Printed (Result_Line result), Printed (Json_Error_Line cnt ex)])
                   (claude_attempts w q raw js st cnts Unbound))
          else (Inr result, claude_sent w q))"

definition complete_text_claude :: "world \<Rightarrow> request \<Rightarrow> outcome" where
  "complete_text_claude w rq =
     after
       (case anthropic_client w of
          Some e \<Rightarrow> [Printed (Exc_Line e), Printed (Msg_Line ''Anthropic API key not found.'')]
        | None \<Rightarrow> [])
       (claude_attempts w (claude_request rq) (return_raw rq) (json_object rq) (sleep_time rq)
          [0..<nat (max_retry rq)] Bound_None)"

section \<open>The multimodal caller\<close>

text \<open>
  The conversion the caller applies to the message's turns and to the history's: a
  \<^verbatim>\<open>user\<close> turn is kept, an \<^verbatim>\<open>assistant\<close> turn becomes a \<^verbatim>\<open>model\<close> turn, and the
  \<^verbatim>\<open>if\<close>/\<^verbatim>\<open>elif\<close> has no other branch.
\<close>

fun to_gemini :: "turn list \<Rightarrow> gemini_turn list" where
  "to_gemini [] = []"
| "to_gemini (msg # msgs) =
     (if role msg = ''user'' then \<lparr>g_role = ''user'', parts = [content msg]\<rparr> # to_gemini msgs
      else if role msg = ''assistant''
      then \<lparr>g_role = ''model'', parts = [content msg]\<rparr> # to_gemini msgs
      else to_gemini msgs)"

definition gemini_messages :: "request \<Rightarrow> gemini_turn list" where
  "gemini_messages rq =
     (let messages =
        (case message rq of
           Str s \<Rightarrow>
             [\<lparr>g_role = ''user'',
               parts =
                 [if json_object rq
                  then ''You are a helpful assistant designed to output in JSON format. '' @ s
                  else s]\<rparr>]
         | Turns ts \<Rightarrow> to_gemini ts)
      in case history rq of None \<Rightarrow> messages | Some h \<Rightarrow> to_gemini h @ messages)"

text \<open>
  What an attempt sends: one turn goes out as a one-shot generation; otherwise the turns but
  the last seed a chat and the last turn's text is sent. With no turn at all,
  \<^verbatim>\<open>messages[-1]\<close> raises.
\<close>

definition gemini_request :: "request \<Rightarrow> gemini_turn list \<Rightarrow> exc + gemini_request" where
  "gemini_request rq messages =
     (if length messages = 1 then
        (case first (parts (hd messages)) of
           Inl e \<Rightarrow> Inl e
         | Inr t \<Rightarrow>
             Inr (Generate_Content (model rq) t (max_tokens rq) (temperature rq) (kwargs rq)))
      else if messages = [] then Inl (IndexError ''list index out of range'')
      else
        (case first (parts (last messages)) of
           Inl e \<Rightarrow> Inl e
         | Inr t \<Rightarrow>
             Inr (Send_Message (model rq) (butlast messages) t (max_tokens rq)
                    (temperature rq) (kwargs rq))))"

definition gemini_try :: "world \<Rightarrow> bool \<Rightarrow> nat \<Rightarrow> exc + gemini_request \<Rightarrow> exc + pyval" where
  "gemini_try w raw cnt q =
     (case q of
        Inl e \<Rightarrow> Inl e
      | Inr g \<Rightarrow>
          (case gemini_call w cnt g of
             Inl e \<Rightarrow> Inl e
           | Inr response \<Rightarrow>
               if raw then Inr (Raw_Gemini response)
               else (case response of
                       Gemini_Response None \<Rightarrow> Inl (ValueError ''response.text'')
                     | Gemini_Response (Some t) \<Rightarrow> Inr (Text t))))"

definition gemini_sent :: "exc + gemini_request \<Rightarrow> event list" where
  "gemini_sent q = (case q of Inl _ \<Rightarrow> [] | Inr g \<Rightarrow> [Called_Gemini g])"

fun gemini_attempts ::
  "world \<Rightarrow> exc + gemini_request \<Rightarrow> bool \<Rightarrow> bool \<Rightarrow> nat \<Rightarrow> nat list \<Rightarrow> pyvar \<Rightarrow> outcome"
where
  "gemini_attempts w q raw js st [] e = (Inl (raise_var ''e'' e), [])"
| "gemini_attempts w q raw js st (cnt # cnts) e =
     (case gemini_try w raw cnt q of
        Inl ex \<Rightarrow>
          after (gemini_sent q @ [Printed (Retry_Line cnt ex st), Slept st])
            (gemini_attempts w q raw js st cnts Unbound)
      | Inr result \<Rightarrow>
          if js \<and> \<not> raw then
            (case loads w result of
               Inr v \<Rightarrow> (Inr v, gemini_sent q)
             | Inl ex \<Rightarrow>
                 after (gemini_sent q @
                        [Printed (Result_Line result), Printed (Json_Error_Line cnt ex)])
                   (gemini_attempts w q raw js st cnts Unbound))
          else (Inr result, gemini_sent q))"

text \<open>The set-up: any failure is printed and raised again before the first attempt.\<close>

definition gemini_setup :: "world \<Rightarrow> exc option" where
  "gemini_setup w =
     (case gemini_api_key w of
        None \<Rightarrow> Some (ValueError ''GEMINI_API_KEY environment variable not found.'')
      | Some k \<Rightarrow>
          if k = [] then Some (ValueError ''GEMINI_API_KEY environment variable not found.'')
          else if \<not> genai_present w
          then Some (ImportError ''google-generativeai package not installed. Please install it with: pip install google-generativeai'')
          else genai_configure w)"

definition complete_text_gemini :: "world \<Rightarrow> request \<Rightarrow> outcome" where
  "complete_text_gemini w rq =
     (case gemini_setup w of
        Some e \<Rightarrow> (Inl e, [Printed (Exc_Line e), Printed (Msg_Line ''Gemini API setup failed.'')])
      | None \<Rightarrow>
          gemini_attempts w (gemini_request rq (gemini_messages rq)) (return_raw rq)
            (json_object rq) (sleep_time rq) [0..<nat (max_retry rq)] Bound_None)"

section \<open>The local-model caller\<close>

definition hf_message :: "request \<Rightarrow> exc + message" where
  "hf_message rq =
     (if json_object rq then
        (case message rq of
           Str s \<Rightarrow> Inr (Str (''You are a helpful assistant designed to output in JSON format.'' @ s))
         | Turns _ \<Rightarrow> Inl (TypeError ''can only concatenate str to str''))
      else Inr (message rq))"

text \<open>
  The cache look-up and, on a miss, the two loads and the insertion. The result is the
  pair of handles or the exception of a load, with the loads made and the cache after.
\<close>

definition hf_lookup :: "world \<Rightarrow> string \<Rightarrow> cache \<Rightarrow> (exc + nat \<times> nat) \<times> event list \<times> cache" where
  "hf_lookup w name loaded_hf_models =
     (case loaded_hf_models name of
        Some pair \<Rightarrow> (Inr pair, [], loaded_hf_models)
      | None \<Rightarrow>
          (case model_from_pretrained w name of
             Inl e \<Rightarrow> (Inl e, [Loaded_Model name], loaded_hf_models)
           | Inr hf_model \<Rightarrow>
               (case tokenizer_from_pretrained w name of
                  Inl e \<Rightarrow> (Inl e, [Loaded_Model name, Loaded_Tokenizer name], loaded_hf_models)
                | Inr tokenizer \<Rightarrow>
                    (Inr (hf_model, tokenizer), [Loaded_Model name, Loaded_Tokenizer name],
                     loaded_hf_models(name \<mapsto> (hf_model, tokenizer))))))"

text \<open>The loop; the name \<^verbatim>\<open>e\<close> is bound only inside the handler.\<close>

fun hf_attempts :: "world \<Rightarrow> hf_request \<Rightarrow> nat \<Rightarrow> nat list \<Rightarrow> outcome" where
  "hf_attempts w q st [] = (Inl (raise_var ''e'' Unbound), [])"
| "hf_attempts w q st (cnt # cnts) =
     (case hf_generate w cnt q of
        Inr completion \<Rightarrow> (Inr (Text completion), [Called_HF q])
      | Inl e \<Rightarrow>
          after [Called_HF q, Printed (Hf_Retry_Line cnt e), Slept st]
            (hf_attempts w q st cnts))"

definition complete_text_hf :: "world \<Rightarrow> request \<Rightarrow> cache \<Rightarrow> outcome \<times> cache" where
  "complete_text_hf w rq loaded_hf_models =
     (case hf_message rq of
        Inl e \<Rightarrow> ((Inl e, []), loaded_hf_models)
      | Inr msg \<Rightarrow>
          (case split_1 (model rq) of
             None \<Rightarrow> ((Inl (IndexError ''list index out of range''), []), loaded_hf_models)
           | Some name \<Rightarrow>
               (case hf_lookup w name loaded_hf_models of
                  (Inl e, loads_made, c) \<Rightarrow> ((Inl e, loads_made), c)
                | (Inr (hf_model, tokenizer), loads_made, c) \<Rightarrow>
                    (case tokenize w tokenizer msg of
                       Inl e \<Rightarrow> ((Inl e, loads_made), c)
                     | Inr encoded_input \<Rightarrow>
                         (after loads_made
                            (hf_attempts w
                               (HF_Generate hf_model encoded_input (temperature rq) (max_tokens rq)
                                  (kwargs rq))
                               (sleep_time rq) [0..<nat (max_retry rq)]),
                          c)))))"

section \<open>The dispatcher\<close>

definition MAX_OPENAI_RETRY :: int where "MAX_OPENAI_RETRY = 5"
definition OPENAI_SLEEP_TIME :: nat where "OPENAI_SLEEP_TIME = 60"
definition MAX_CLAUDE_RETRY :: int where "MAX_CLAUDE_RETRY = 100"
definition CLAUDE_SLEEP_TIME :: nat where "CLAUDE_SLEEP_TIME = 5"
definition MAX_GEMINI_RETRY :: int where "MAX_GEMINI_RETRY = 5"
definition GEMINI_SLEEP_TIME :: nat where "GEMINI_SLEEP_TIME = 30"

text \<open>
  The registry as the source spells it: two adjacent literals without a comma between them
  are one string.
\<close>

definition registered_text_completion_llms :: "string list" where
  "registered_text_completion_llms =
     [''gpt-4-1106-preview'',
      ''gpt-4-0125-preview'', ''gpt-4-turbo-preview'',
      ''gpt-4-turbo'', ''gpt-4-turbo-2024-04-09'' @ ''gpt-4-turbo'',
      ''claude-2.1'',
      ''claude-3-opus-20240229'',
      ''claude-3-sonnet-20240229'',
      ''claude-3-haiku-20240307'',
      ''huggingface/codellama/CodeLlama-7b-hf'',
      ''gemma-3-27b-it'',
      ''gemma-2-9b-it'',
      ''gemini-1.5-flash'',
      ''gemini-1.5-pro'']"

definition not_registered :: "string \<Rightarrow> event list" where
  "not_registered m = (if m \<in> set registered_text_completion_llms then [] else [Warned m])"

text \<open>
  The dispatcher passes the retry bound and the delay of the family it chose. The local
  caller gets neither and runs on its defaults, one attempt and no delay; it has no
  parameter for the history, the tools and the raw flag, so these three reach it as further
  keyword arguments.
\<close>

definition get_llm_output_tools :: "world \<Rightarrow> request \<Rightarrow> cache \<Rightarrow> outcome \<times> cache" where
  "get_llm_output_tools w rq loaded_hf_models =
     (if sub_in ''gpt-4'' (model rq) then
        (after (not_registered (model rq))
           (get_gpt_output w
              (rq\<lparr>max_retry := MAX_OPENAI_RETRY, sleep_time := OPENAI_SLEEP_TIME, kwargs := []\<rparr>)),
         loaded_hf_models)
      else if sub_in ''claude'' (model rq) then
        (after (not_registered (model rq))
           (complete_text_claude w
              (rq\<lparr>max_retry := MAX_CLAUDE_RETRY, sleep_time := CLAUDE_SLEEP_TIME, kwargs := []\<rparr>)),
         loaded_hf_models)
      else if sub_in ''gemma'' (model rq) \<or> sub_in ''gemini'' (model rq) then
        (after (not_registered (model rq))
           (complete_text_gemini w
              (rq\<lparr>max_retry := MAX_GEMINI_RETRY, sleep_time := GEMINI_SLEEP_TIME, kwargs := []\<rparr>)),
         loaded_hf_models)
      else if sub_in ''huggingface'' (model rq) then
        (case complete_text_hf w
                (rq\<lparr>max_retry := 1, sleep_time := 0,
                    kwargs := [''history'', ''tools'', ''return_raw'']\<rparr>)
                loaded_hf_models of
           (out, c) \<Rightarrow> (after (not_registered (model rq)) out, c))
      else
        ((Inl (ValueError (''Model '' @ model rq @ '' not recognized.'')),
          not_registered (model rq)),
         loaded_hf_models))"

section \<open>Concrete worlds and requests\<close>

text \<open>
  A request to a model for a prompt with the retry bound and the delay that the Claude-style and the
  local caller default to, a world whose backends raise on every call, and a world whose
  backends answer every call with one text.
\<close>

definition ask :: "string \<Rightarrow> string \<Rightarrow> request" where
  "ask m s =
     \<lparr>message = Str s, model = m, max_tokens = 2048,
      temperature = 1, max_retry = 1, sleep_time = 0, json_object = False, history = None,
      tools = [], return_raw = False, kwargs = []\<rparr>"

definition failing_world :: world where
  "failing_world =
     \<lparr>json_loads = json_decode,
      openai_create = (\<lambda>cnt q. Inl (SdkError ''RateLimitError'')),
      anthropic_client = None,
      anthropic_create = (\<lambda>cnt q. Inl (SdkError ''RateLimitError'')),
      gemini_api_key = Some ''key'',
      genai_present = True,
      genai_configure = None,
      gemini_call = (\<lambda>cnt q. Inl (SdkError ''RateLimitError'')),
      model_from_pretrained = (\<lambda>name. Inr 1),
      tokenizer_from_pretrained = (\<lambda>name. Inr 2),
      tokenize = (\<lambda>tokenizer msg. Inr [1, 2, 3]),
      hf_generate = (\<lambda>cnt q. Inl (SdkError ''OutOfMemoryError''))\<rparr>"

definition answering_world :: "string \<Rightarrow> world" where
  "answering_world t =
     failing_world
       \<lparr>openai_create := (\<lambda>cnt q. Inr [t]),
        anthropic_create := (\<lambda>cnt q. Inr [Text_Block t]),
        gemini_call := (\<lambda>cnt q. Inr (Gemini_Response (Some t))),
        hf_generate := (\<lambda>cnt q. Inr t)\<rparr>"

section \<open>The specification's renaming of roles\<close>





section \<open>Families of backends and of effects\<close>

text \<open>
  The family whose backend an effect touches, the family the specification routes a
  model identifier to, and a world in which no credential can be resolved.
\<close>

datatype family = OpenAI_Family | Claude_Family | Multimodal_Family | Local_Family

definition family_of_event :: "event \<Rightarrow> family option" where
  "family_of_event ev =
     (case ev of
        Called_OpenAI _ \<Rightarrow> Some OpenAI_Family
      | Called_Anthropic _ \<Rightarrow> Some Claude_Family
      | Called_Gemini _ \<Rightarrow> Some Multimodal_Family
      | Loaded_Model _ \<Rightarrow> Some Local_Family
      | Loaded_Tokenizer _ \<Rightarrow> Some Local_Family
      | Called_HF _ \<Rightarrow> Some Local_Family
      | _ \<Rightarrow> None)"

definition route :: "string \<Rightarrow> family option" where
  "route m =
     (if sub_in ''gpt-4'' m then Some OpenAI_Family
      else if sub_in ''claude'' m then Some Claude_Family
      else if sub_in ''gemma'' m \<or> sub_in ''gemini'' m then Some Multimodal_Family
      else if sub_in ''huggingface'' m then Some Local_Family
      else None)"

definition only_family :: "family option \<Rightarrow> event list \<Rightarrow> bool" where
  "only_family f tr = (\<forall>ev \<in> set tr. family_of_event ev = None \<or> family_of_event ev = f)"

definition no_credentials :: world where
  "no_credentials =
     failing_world\<lparr>anthropic_client := Some (SdkError ''AnthropicError''), gemini_api_key := None\<rparr>"

section \<open>Attempts, calls and loads\<close>


text \<open>
  The effects that reach a backend, and the effects that load a local model or tokenizer.
\<close>

definition is_call :: "event \<Rightarrow> bool" where
  "is_call ev =
     (case ev of
        Called_OpenAI _ \<Rightarrow> True
      | Called_Anthropic _ \<Rightarrow> True
      | Called_Gemini _ \<Rightarrow> True
      | Called_HF _ \<Rightarrow> True
      | _ \<Rightarrow> False)"

definition is_load :: "event \<Rightarrow> bool" where
  "is_load ev = (case ev of Loaded_Model _ \<Rightarrow> True | Loaded_Tokenizer _ \<Rightarrow> True | _ \<Rightarrow> False)"

text \<open>
  A call has returned \<open>v\<close> at attempt \<open>k\<close> when its result is \<open>v\<close>, its last effect is a
  backend call, so that nothing is slept or printed after it, and it has made \<open>k + 1\<close>
  backend calls in all, one per attempt up to \<open>k\<close> and none for a later attempt.
\<close>

definition returned_at :: "nat \<Rightarrow> pyval \<Rightarrow> outcome \<Rightarrow> bool" where
  "returned_at k v out =
     (fst out = Inr v \<and> snd out \<noteq> [] \<and> is_call (last (snd out)) \<and>
      length (filter is_call (snd out)) = Suc k)"

text \<open>
  The value with which an attempt of each loop returns, if it returns: the backend call and
  the reading of its response must not raise, and where the response is decoded as JSON the
  decoding must not raise either.
\<close>

definition gpt_returns :: "world \<Rightarrow> openai_request \<Rightarrow> bool \<Rightarrow> nat \<Rightarrow> pyval option" where
  "gpt_returns w q js cnt =
     (case openai_create w cnt q of
        Inl e \<Rightarrow> None
      | Inr choices \<Rightarrow>
          (case first choices of
             Inl e \<Rightarrow> None
           | Inr result \<Rightarrow>
               if js then
                 (case json_loads w (extract_json result) of
                    Inl e \<Rightarrow> None
                  | Inr v \<Rightarrow> Some (Json v))
               else Some (Text result)))"

definition claude_returns ::
  "world \<Rightarrow> anthropic_request \<Rightarrow> bool \<Rightarrow> bool \<Rightarrow> nat \<Rightarrow> pyval option" where
  "claude_returns w q raw js cnt =
     (case claude_try w raw cnt q of
        Inl e \<Rightarrow> None
      | Inr result \<Rightarrow>
          if js \<and> \<not> raw then (case loads w result of Inl e \<Rightarrow> None | Inr v \<Rightarrow> Some v)
          else Some result)"

definition gemini_returns ::
  "world \<Rightarrow> exc + gemini_request \<Rightarrow> bool \<Rightarrow> bool \<Rightarrow> nat \<Rightarrow> pyval option" where
  "gemini_returns w q raw js cnt =
     (case gemini_try w raw cnt q of
        Inl e \<Rightarrow> None
      | Inr result \<Rightarrow>
          if js \<and> \<not> raw then (case loads w result of Inl e \<Rightarrow> None | Inr v \<Rightarrow> Some v)
          else Some result)"

definition hf_returns :: "world \<Rightarrow> hf_request \<Rightarrow> nat \<Rightarrow> pyval option" where
  "hf_returns w q cnt =
     (case hf_generate w cnt q of Inl e \<Rightarrow> None | Inr completion \<Rightarrow> Some (Text completion))"

text \<open>
  The cache left by a sequence of calls of the local caller, each in its own world.
\<close>

definition later_calls :: "(world \<times> request) list \<Rightarrow> cache \<Rightarrow> cache" where
  "later_calls calls c = foldl (\<lambda>c' (w, rq). snd (complete_text_hf w rq c')) c calls"

section \<open>More concrete worlds and texts\<close>

text \<open>
  A response with text around a JSON object, and the object alone. A world whose
  OpenAI-style backend answers the first call with a text without braces and every later
  call with an empty object, and a world whose backends raise on the first two calls and
  answer from the third.
\<close>

definition sure_thanks :: string where
  \<open>sure_thanks = ''Sure! {"a": 1} Thanks''\<close>

definition a1_object :: string where
  \<open>a1_object = ''{"a": 1}''\<close>

definition stubborn_world :: world where
  "stubborn_world =
     failing_world\<lparr>openai_create := (\<lambda>cnt q. if cnt = 0 then Inr [''nope''] else Inr [''{}''])\<rparr>"

definition flaky_world :: world where
  "flaky_world =
     (answering_world ''pong'')
       \<lparr>openai_create := (\<lambda>cnt q. if cnt < 2 then Inl (SdkError ''RateLimitError'') else Inr [''pong'']),
        anthropic_create :=
          (\<lambda>cnt q. if cnt < 2 then Inl (SdkError ''RateLimitError'') else Inr [Text_Block ''pong'']),
        gemini_call :=
          (\<lambda>cnt q. if cnt < 2 then Inl (SdkError ''RateLimitError'')
                    else Inr (Gemini_Response (Some ''pong''))),
        hf_generate := (\<lambda>cnt q. if cnt < 2 then Inl (SdkError ''OutOfMemoryError'') else Inr ''pong'')\<rparr>"

text \<open>
  A world whose Claude-style backend answers the first call with a tool-use block and
  every later call with a text block.
\<close>

definition tool_use_world :: world where
  "tool_use_world =
     failing_world
       \<lparr>anthropic_create :=
          (\<lambda>cnt q. if cnt = 0 then Inr [Tool_Use ''search''] else Inr [Text_Block ''pong''])\<rparr>"

text \<open>A world in which every model loads and no tokenizer does.\<close>

definition no_tokenizer_world :: world where
  "no_tokenizer_world =
     failing_world\<lparr>tokenizer_from_pretrained := (\<lambda>name. Inl (SdkError ''OSError''))\<rparr>"

section \<open>Basic facts about traces\<close>

lemma fst_after [simp]: "fst (after evs out) = fst out"
  by (simp add: after_def)

lemma snd_after [simp]: "snd (after evs out) = evs @ snd out"
  by (simp add: after_def)

lemma after_pair [simp]: "after evs (r, tr) = (r, evs @ tr)"
  by (simp add: after_def)

section \<open>What is raised when every attempt fails\<close>

text \<open>
  Once a handler has run, the name \<^verbatim>\<open>e\<close> is unbound: whatever made the attempts of the
  Claude-style loop fail, a loop that runs at least once and returns nothing ends in an
  UnboundLocalError.
\<close>

lemma claude_attempts_raise:
  "cnts \<noteq> [] \<Longrightarrow> fst (claude_attempts w q raw js st cnts e) = Inl x \<Longrightarrow>
   x = UnboundLocalError ''e''"
proof (induction cnts arbitrary: e)
  case Nil
  then show ?case by simp
next
  case (Cons cnt cnts)
  show ?case
  proof (cases cnts)
    case Nil
    with Cons.prems show ?thesis
      by (auto simp: raise_var_def split: sum.splits if_splits)
  next
    case (Cons c cs)
    with Cons.prems Cons.IH [of Unbound] show ?thesis
      by (auto split: sum.splits if_splits)
  qed
qed

lemma gemini_attempts_raise:
  "cnts \<noteq> [] \<Longrightarrow> fst (gemini_attempts w q raw js st cnts e) = Inl x \<Longrightarrow>
   x = UnboundLocalError ''e''"
proof (induction cnts arbitrary: e)
  case Nil
  then show ?case by simp
next
  case (Cons cnt cnts)
  show ?case
  proof (cases cnts)
    case Nil
    with Cons.prems show ?thesis
      by (auto simp: raise_var_def split: sum.splits if_splits)
  next
    case (Cons c cs)
    with Cons.prems Cons.IH [of Unbound] show ?thesis
      by (auto split: sum.splits if_splits)
  qed
qed

lemma hf_attempts_raise:
  "fst (hf_attempts w q st cnts) = Inl x \<Longrightarrow> x = UnboundLocalError ''e''"
  by (induction cnts) (auto simp: raise_var_def split: sum.splits)

text \<open>
  The OpenAI-style loop keeps the exception in a second name, \<^verbatim>\<open>error\<close>, which survives
  the handler: when every call raises, the last exception is raised again.
\<close>

lemma gpt_attempts_all_fail:
  "cnts \<noteq> [] \<Longrightarrow> \<forall>cnt \<in> set cnts. openai_create w cnt q = Inl (errs cnt) \<Longrightarrow>
   fst (gpt_attempts w q js st cnts error) = Inl (errs (last cnts))"
proof (induction cnts arbitrary: error)
  case Nil
  then show ?case by simp
next
  case (Cons cnt cnts)
  show ?case
  proof (cases cnts)
    case Nil
    with Cons.prems show ?thesis by (simp add: raise_var_def)
  next
    case (Cons c cs)
    with Cons.prems Cons.IH [of "Bound_Exc (errs cnt)"] show ?thesis by simp
  qed
qed

text \<open>
  C2. When every attempt raises, each of the four callers should raise the last exception
  itself. With one attempt that raises a rate-limit error (respectively an out-of-memory
  error of the local model), the OpenAI-style caller raises that exception, and the
  Claude-style, the multimodal and the local caller raise an UnboundLocalError for the
  name \<^verbatim>\<open>e\<close> in its place.
\<close>

theorem exhausted_retries_raise:
  "fst (get_gpt_output failing_world (ask ''gpt-4-turbo'' ''hi''))
     = Inl (SdkError ''RateLimitError'') \<and>
   fst (complete_text_claude failing_world (ask ''claude-2.1'' ''hi''))
     = Inl (UnboundLocalError ''e'') \<and>
   fst (complete_text_gemini failing_world (ask ''gemini-1.5-pro'' ''hi''))
     = Inl (UnboundLocalError ''e'') \<and>
   fst (fst (complete_text_hf failing_world (ask ''huggingface/codellama/CodeLlama-7b-hf'' ''hi'')
               Map.empty))
     = Inl (UnboundLocalError ''e'')"
  by (simp add: get_gpt_output_def complete_text_claude_def complete_text_gemini_def
      complete_text_hf_def ask_def failing_world_def claude_try_def gemini_try_def
      gemini_setup_def gemini_messages_def gemini_request_def hf_message_def hf_lookup_def
      first_def raise_var_def)

section \<open>The conversation a caller builds\<close>


text \<open>
  C6, as stated: a prompt string without history becomes one \<^verbatim>\<open>user\<close> turn whose content
  is the prompt. With \<^verbatim>\<open>json_object\<close> set, the Claude-style caller sends the prompt behind
  its JSON instruction, not the prompt itself.
\<close>

theorem single_prompt_counterexample:
  "an_messages (claude_request ((ask ''claude-2.1'' ''hi'')\<lparr>json_object := True\<rparr>))
     \<noteq> [\<lparr>role = ''user'', content = ''hi''\<rparr>]"
  by (simp add: claude_request_def claude_messages_def ask_def)

text \<open>
  C6, amended: for a prompt string without history, the three chat callers build exactly
  one turn with the role \<^verbatim>\<open>user\<close>. Its content is the prompt when \<^verbatim>\<open>json_object\<close> is
  unset, and the prompt behind the family's JSON instruction when it is set (in the
  OpenAI-style caller only if the prompt does not contain \<^verbatim>\<open>json\<close> in any letter case).
  The local caller builds no turn: its prompt is the string, behind the instruction when
  \<^verbatim>\<open>json_object\<close> is set.
\<close>

theorem single_prompt_turn:
  "message rq = Str s \<Longrightarrow> history rq = None \<Longrightarrow>
   oa_messages (gpt_request rq) =
     [\<lparr>role = ''user'',
       content = (if json_object rq \<and> \<not> sub_in ''json'' (py_lower s)
                  then ''You are a helpful assistant designed to output JSON. '' @ s else s)\<rparr>] \<and>
   an_messages (claude_request rq) =
     [\<lparr>role = ''user'',
       content = (if json_object rq
                  then ''You are a helpful assistant designed to output in JSON format.'' @ s
                  else s)\<rparr>] \<and>
   gemini_messages rq =
     [\<lparr>g_role = ''user'',
       parts = [if json_object rq
                then ''You are a helpful assistant designed to output in JSON format. '' @ s
                else s]\<rparr>] \<and>
   hf_message rq =
     Inr (Str (if json_object rq
               then ''You are a helpful assistant designed to output in JSON format.'' @ s
               else s))"
  by (simp add: gpt_request_def gpt_messages_def gpt_message_def claude_request_def
      claude_messages_def gemini_messages_def hf_message_def)

theorem single_prompt_turn_witness:
  "oa_messages (gpt_request (ask ''gpt-4-turbo'' ''hi'')) = [\<lparr>role = ''user'', content = ''hi''\<rparr>] \<and>
   an_messages (claude_request (ask ''gpt-4-turbo'' ''hi'')) = [\<lparr>role = ''user'', content = ''hi''\<rparr>] \<and>
   gemini_messages (ask ''gpt-4-turbo'' ''hi'') = [\<lparr>g_role = ''user'', parts = [''hi'']\<rparr>] \<and>
   hf_message (ask ''gpt-4-turbo'' ''hi'') = Inr (Str ''hi'')"
  using single_prompt_turn [of "ask ''gpt-4-turbo'' ''hi''" "''hi''"]
  by (simp add: ask_def)

















section \<open>Set-up failures\<close>

lemma claude_attempts_no_client:
  "anthropic_client w = Some e0 \<Longrightarrow>
   claude_attempts w q raw js st cnts e =
     (Inl (raise_var ''e'' (if cnts = [] then e else Unbound)),
      concat (map (\<lambda>cnt. [Printed (Retry_Line cnt (UnboundLocalError ''anthropic_client'') st),
                            Slept st]) cnts))"
  by (induction cnts arbitrary: e) (simp_all add: claude_try_def claude_sent_def)

text \<open>
  C5. A failed set-up is fatal at once only in the multimodal caller: without the key or
  without the client library it prints and raises before any attempt, so its trace holds
  the two printed lines and nothing else. The Claude-style caller prints the failure of
  its client's construction and goes on to the loop, where every attempt fails on the
  unbound client, is logged and slept on, and nothing is sent.
\<close>

theorem setup_failure:
  "((gemini_api_key w = None \<or> \<not> genai_present w) \<longrightarrow>
      (\<exists>e. complete_text_gemini w rq =
             (Inl e, [Printed (Exc_Line e), Printed (Msg_Line ''Gemini API setup failed.'')]))) \<and>
   (anthropic_client w = Some e0 \<longrightarrow>
      complete_text_claude w rq =
        (Inl (raise_var ''e'' (if max_retry rq \<le> 0 then Bound_None else Unbound)),
         [Printed (Exc_Line e0), Printed (Msg_Line ''Anthropic API key not found.'')] @
         concat (map (\<lambda>cnt. [Printed (Retry_Line cnt (UnboundLocalError ''anthropic_client'')
                                        (sleep_time rq)),
                               Slept (sleep_time rq)])
                   [0..<nat (max_retry rq)])))"
  by (auto simp: complete_text_gemini_def gemini_setup_def complete_text_claude_def
      claude_attempts_no_client split: option.splits)

theorem setup_failure_witness:
  "complete_text_gemini no_credentials (ask ''gemini-1.5-pro'' ''hi'') =
     (Inl (ValueError ''GEMINI_API_KEY environment variable not found.''),
      [Printed (Exc_Line (ValueError ''GEMINI_API_KEY environment variable not found.'')),
       Printed (Msg_Line ''Gemini API setup failed.'')]) \<and>
   complete_text_claude no_credentials ((ask ''claude-2.1'' ''hi'')\<lparr>max_retry := 2\<rparr>) =
     (Inl (UnboundLocalError ''e''),
      [Printed (Exc_Line (SdkError ''AnthropicError'')),
       Printed (Msg_Line ''Anthropic API key not found.''),
       Printed (Retry_Line 0 (UnboundLocalError ''anthropic_client'') 0), Slept 0,
       Printed (Retry_Line 1 (UnboundLocalError ''anthropic_client'') 0), Slept 0])"
proof -
  have key: "gemini_api_key no_credentials = None"
    by (simp add: no_credentials_def failing_world_def)
  have client: "anthropic_client no_credentials = Some (SdkError ''AnthropicError'')"
    by (simp add: no_credentials_def failing_world_def)
  have up: "[0..<2] = [0, Suc 0]"
    by (simp add: upt_rec)
  from key have "gemini_setup no_credentials =
      Some (ValueError ''GEMINI_API_KEY environment variable not found.'')"
    by (simp add: gemini_setup_def)
  then have g: "fst (complete_text_gemini no_credentials (ask ''gemini-1.5-pro'' ''hi'')) =
      Inl (ValueError ''GEMINI_API_KEY environment variable not found.'')"
    by (simp add: complete_text_gemini_def)
  from setup_failure [of no_credentials "ask ''gemini-1.5-pro'' ''hi''" "SdkError ''AnthropicError''"]
    key g
  have 1: "complete_text_gemini no_credentials (ask ''gemini-1.5-pro'' ''hi'') =
     (Inl (ValueError ''GEMINI_API_KEY environment variable not found.''),
      [Printed (Exc_Line (ValueError ''GEMINI_API_KEY environment variable not found.'')),
       Printed (Msg_Line ''Gemini API setup failed.'')])"
    by auto
  from setup_failure [of no_credentials "(ask ''claude-2.1'' ''hi'')\<lparr>max_retry := 2\<rparr>"
      "SdkError ''AnthropicError''"] client
  have 2: "complete_text_claude no_credentials ((ask ''claude-2.1'' ''hi'')\<lparr>max_retry := 2\<rparr>) =
     (Inl (UnboundLocalError ''e''),
      [Printed (Exc_Line (SdkError ''AnthropicError'')),
       Printed (Msg_Line ''Anthropic API key not found.''),
       Printed (Retry_Line 0 (UnboundLocalError ''anthropic_client'') 0), Slept 0,
       Printed (Retry_Line 1 (UnboundLocalError ''anthropic_client'') 0), Slept 0])"
    by (simp add: ask_def raise_var_def up)
  from 1 2 show ?thesis by simp
qed

section \<open>Routing\<close>

lemma only_family_append [simp]:
  "only_family f (xs @ ys) \<longleftrightarrow> only_family f xs \<and> only_family f ys"
  by (auto simp: only_family_def)

lemma only_family_Nil [simp]: "only_family f []"
  by (simp add: only_family_def)

lemma only_family_Cons [simp]:
  "only_family f (ev # tr) \<longleftrightarrow>
   (family_of_event ev = None \<or> family_of_event ev = f) \<and> only_family f tr"
  by (simp add: only_family_def)

lemma gpt_attempts_family: "only_family (Some OpenAI_Family) (snd (gpt_attempts w q js st cnts error))"
  by (induction cnts arbitrary: error)
    (auto simp: family_of_event_def split: sum.splits)

lemma claude_attempts_family:
  "only_family (Some Claude_Family) (snd (claude_attempts w q raw js st cnts e))"
  by (induction cnts arbitrary: e)
    (auto simp: family_of_event_def claude_sent_def split: sum.splits option.splits)

lemma gemini_attempts_family:
  "only_family (Some Multimodal_Family) (snd (gemini_attempts w q raw js st cnts e))"
  by (induction cnts arbitrary: e)
    (auto simp: family_of_event_def gemini_sent_def split: sum.splits)

lemma hf_attempts_family: "only_family (Some Local_Family) (snd (hf_attempts w q st cnts))"
  by (induction cnts) (auto simp: family_of_event_def split: sum.splits)

lemma get_gpt_output_family: "only_family (Some OpenAI_Family) (snd (get_gpt_output w rq))"
  by (simp add: get_gpt_output_def gpt_attempts_family)

lemma complete_text_claude_family:
  "only_family (Some Claude_Family) (snd (complete_text_claude w rq))"
  by (simp add: complete_text_claude_def claude_attempts_family family_of_event_def
      split: option.splits)

lemma complete_text_gemini_family:
  "only_family (Some Multimodal_Family) (snd (complete_text_gemini w rq))"
  by (simp add: complete_text_gemini_def gemini_attempts_family family_of_event_def
      split: option.splits)

lemma complete_text_hf_family:
  "only_family (Some Local_Family) (snd (fst (complete_text_hf w rq c)))"
  by (auto simp: complete_text_hf_def hf_lookup_def hf_attempts_family family_of_event_def
      split: option.splits sum.splits prod.splits)

lemma not_registered_family: "only_family f (not_registered m)"
  by (simp add: not_registered_def family_of_event_def)

text \<open>
  C3. The dispatcher tests the model identifier for substrings in a fixed order:
  \<^verbatim>\<open>gpt-4\<close> selects the OpenAI-style caller with 5 attempts and 60 seconds,
  \<^verbatim>\<open>claude\<close> the Claude-style caller with 100 attempts and 5 seconds, \<^verbatim>\<open>gemma\<close> or
  \<^verbatim>\<open>gemini\<close> the multimodal caller with 5 attempts and 30 seconds, and
  \<^verbatim>\<open>huggingface\<close> the local caller. Every effect on a backend belongs to the family
  routed to. Any other identifier raises the not-recognized error, and the trace holds at
  most the registry's warning: no caller runs, nothing is sent and nothing is retried.
\<close>

theorem dispatch:
  "only_family (route (model rq)) (snd (fst (get_llm_output_tools w rq c))) \<and>
   (sub_in ''gpt-4'' (model rq) \<longrightarrow>
      get_llm_output_tools w rq c =
        (after (not_registered (model rq))
           (get_gpt_output w (rq\<lparr>max_retry := 5, sleep_time := 60, kwargs := []\<rparr>)), c)) \<and>
   (\<not> sub_in ''gpt-4'' (model rq) \<and> sub_in ''claude'' (model rq) \<longrightarrow>
      get_llm_output_tools w rq c =
        (after (not_registered (model rq))
           (complete_text_claude w (rq\<lparr>max_retry := 100, sleep_time := 5, kwargs := []\<rparr>)), c)) \<and>
   (\<not> sub_in ''gpt-4'' (model rq) \<and> \<not> sub_in ''claude'' (model rq) \<and>
    (sub_in ''gemma'' (model rq) \<or> sub_in ''gemini'' (model rq)) \<longrightarrow>
      get_llm_output_tools w rq c =
        (after (not_registered (model rq))
           (complete_text_gemini w (rq\<lparr>max_retry := 5, sleep_time := 30, kwargs := []\<rparr>)), c)) \<and>
   (\<not> sub_in ''gpt-4'' (model rq) \<and> \<not> sub_in ''claude'' (model rq) \<and>
    \<not> sub_in ''gemma'' (model rq) \<and> \<not> sub_in ''gemini'' (model rq) \<and>
    sub_in ''huggingface'' (model rq) \<longrightarrow>
      get_llm_output_tools w rq c =
        (after (not_registered (model rq))
           (fst (complete_text_hf w
                   (rq\<lparr>max_retry := 1, sleep_time := 0,
                       kwargs := [''history'', ''tools'', ''return_raw'']\<rparr>) c)),
         snd (complete_text_hf w
                (rq\<lparr>max_retry := 1, sleep_time := 0,
                    kwargs := [''history'', ''tools'', ''return_raw'']\<rparr>) c))) \<and>
   (\<not> sub_in ''gpt-4'' (model rq) \<and> \<not> sub_in ''claude'' (model rq) \<and>
    \<not> sub_in ''gemma'' (model rq) \<and> \<not> sub_in ''gemini'' (model rq) \<and>
    \<not> sub_in ''huggingface'' (model rq) \<longrightarrow>
      get_llm_output_tools w rq c =
        ((Inl (ValueError (''Model '' @ model rq @ '' not recognized.'')),
          (if model rq \<in> set registered_text_completion_llms then []
           else [Warned (model rq)])), c))"
proof -
  have "only_family (route (model rq)) (snd (fst (get_llm_output_tools w rq c)))"
    by (simp add: get_llm_output_tools_def route_def not_registered_family
        get_gpt_output_family complete_text_claude_family complete_text_gemini_family
        complete_text_hf_family split_beta)
  then show ?thesis
    by (simp add: get_llm_output_tools_def MAX_OPENAI_RETRY_def OPENAI_SLEEP_TIME_def
        MAX_CLAUDE_RETRY_def CLAUDE_SLEEP_TIME_def MAX_GEMINI_RETRY_def GEMINI_SLEEP_TIME_def
        not_registered_def split_beta)
qed

theorem dispatch_witness:
  "get_llm_output_tools failing_world (ask ''gemini-1.5-flash'' ''hi'') Map.empty =
     (complete_text_gemini failing_world
        ((ask ''gemini-1.5-flash'' ''hi'')\<lparr>max_retry := 5, sleep_time := 30, kwargs := []\<rparr>),
      Map.empty) \<and>
   get_llm_output_tools failing_world (ask ''claude-3-opus-20240229'' ''hi'') Map.empty =
     (complete_text_claude failing_world
        ((ask ''claude-3-opus-20240229'' ''hi'')\<lparr>max_retry := 100, sleep_time := 5, kwargs := []\<rparr>),
      Map.empty) \<and>
   get_llm_output_tools failing_world (ask ''totally-unknown-model'' ''hi'') Map.empty =
     ((Inl (ValueError ''Model totally-unknown-model not recognized.''),
       [Warned ''totally-unknown-model'']), Map.empty)"
  using dispatch [of "ask ''gemini-1.5-flash'' ''hi''" failing_world Map.empty]
    dispatch [of "ask ''claude-3-opus-20240229'' ''hi''" failing_world Map.empty]
    dispatch [of "ask ''totally-unknown-model'' ''hi''" failing_world Map.empty]
  by (simp add: ask_def not_registered_def registered_text_completion_llms_def after_def)

section \<open>Finding and slicing\<close>

lemma py_find_takeWhile:
  "py_find c s = (if c \<in> set s then int (length (takeWhile (\<lambda>x. x \<noteq> c) s)) else - 1)"
  by (induction s) (auto simp: Let_def)

lemma py_rfind_takeWhile:
  "py_rfind c s =
     (if c \<in> set s then int (length s) - 1 - int (length (takeWhile (\<lambda>x. x \<noteq> c) (rev s)))
      else - 1)"
  by (simp add: py_rfind_def py_find_takeWhile Let_def)

lemma takeWhile_stop: "c \<notin> set pre \<Longrightarrow> takeWhile (\<lambda>x. x \<noteq> c) (pre @ c # post) = pre"
  by (induction pre) auto

lemma py_find_first: "c \<notin> set pre \<Longrightarrow> py_find c (pre @ c # post) = int (length pre)"
  by (simp add: py_find_takeWhile takeWhile_stop)

lemma py_rfind_last: "c \<notin> set post \<Longrightarrow> py_rfind c (pre @ c # post) = int (length pre)"
  using takeWhile_stop [of c "rev post" "rev pre"]
  by (simp add: py_rfind_takeWhile)

text \<open>
  The extraction of the OpenAI-style caller yields the text from the first opening brace
  to the last closing brace when the one comes before the other.
\<close>

lemma extract_json_braces:
  assumes "CHR ''{'' \<notin> set pre" and "CHR ''}'' \<notin> set post"
  shows "extract_json (pre @ CHR ''{'' # mid @ CHR ''}'' # post) = CHR ''{'' # mid @ [CHR ''}'']"
proof -
  let ?t = "pre @ CHR ''{'' # mid @ CHR ''}'' # post"
  have f: "py_find CHR ''{'' ?t = int (length pre)"
    using assms(1) by (rule py_find_first)
  have "py_rfind CHR ''}'' ((pre @ CHR ''{'' # mid) @ CHR ''}'' # post)
          = int (length (pre @ CHR ''{'' # mid))"
    using assms(2) by (rule py_rfind_last)
  then have r: "py_rfind CHR ''}'' ?t = int (length pre) + 1 + int (length mid)"
    by simp
  have a: "py_bound (py_find CHR ''{'' ?t) (length ?t) = length pre"
    by (simp add: f py_bound_def)
  have b: "py_bound (py_rfind CHR ''}'' ?t + 1) (length ?t) = length pre + (length mid + 2)"
    unfolding r py_bound_def by (auto simp: min_def)
  have "extract_json ?t = take (length mid + 2) (drop (length pre) ?t)"
    unfolding extract_json_def py_slice_def Let_def a b by simp
  then show ?thesis
    by simp
qed





section \<open>The first attempt that returns\<close>

text \<open>
  Each loop skips the attempts that do not return, with one backend call for each, and
  returns at the first attempt that does.
\<close>

lemma upt_split: "k < n \<Longrightarrow> [0..<n] = [0..<k] @ k # [Suc k..<n]"
  using upt_add_eq_append [of 0 k "n - k"] upt_conv_Cons [of k n] by simp

lemma returned_at_after:
  "returned_at k v out \<Longrightarrow> length (filter is_call pre) = j \<Longrightarrow>
   returned_at (j + k) v (after pre out)"
  by (auto simp: returned_at_def)

lemma gpt_attempts_skip:
  "\<forall>i \<in> set xs. gpt_returns w q js i = None \<Longrightarrow>
   \<exists>pre e'. gpt_attempts w q js st (xs @ ys) e = after pre (gpt_attempts w q js st ys e') \<and>
            length (filter is_call pre) = length xs"
proof (induction xs arbitrary: e)
  case Nil
  have "gpt_attempts w q js st ([] @ ys) e = after [] (gpt_attempts w q js st ys e)"
    by (simp add: after_def)
  then show ?case by (metis filter.simps(1) list.size(3))
next
  case (Cons x xs)
  from Cons.prems have rest: "\<forall>i \<in> set xs. gpt_returns w q js i = None"
    by simp
  from Cons.prems have x: "gpt_returns w q js x = None"
    by simp
  obtain e1 evs where step:
    "gpt_attempts w q js st (x # xs @ ys) e = after evs (gpt_attempts w q js st (xs @ ys) e1)"
    "length (filter is_call evs) = 1"
    using x
    by (auto simp: gpt_returns_def is_call_def split: sum.splits if_splits)
  from Cons.IH [OF rest, of e1] obtain pre e' where
    ih: "gpt_attempts w q js st (xs @ ys) e1 = after pre (gpt_attempts w q js st ys e')"
      "length (filter is_call pre) = length xs"
    by blast
  have "gpt_attempts w q js st ((x # xs) @ ys) e = after (evs @ pre) (gpt_attempts w q js st ys e')"
    using step(1) ih(1) by (simp add: after_def)
  moreover have "length (filter is_call (evs @ pre)) = length (x # xs)"
    using step(2) ih(2) by simp
  ultimately show ?case by blast
qed

lemma gpt_attempts_hit:
  "gpt_returns w q js k = Some v \<Longrightarrow>
   gpt_attempts w q js st (k # ys) e = (Inr v, [Called_OpenAI q])"
  by (auto simp: gpt_returns_def split: sum.splits if_splits)

lemma gpt_first_return:
  assumes "k < n" and "\<forall>i<k. gpt_returns w q js i = None" and "gpt_returns w q js k = Some v"
  shows "returned_at k v (gpt_attempts w q js st [0..<n] e)"
proof -
  from assms(2) have "\<forall>i \<in> set [0..<k]. gpt_returns w q js i = None"
    by simp
  from gpt_attempts_skip [OF this, of st "k # [Suc k..<n]" e] obtain pre e' where
    "gpt_attempts w q js st ([0..<k] @ k # [Suc k..<n]) e =
       after pre (gpt_attempts w q js st (k # [Suc k..<n]) e')"
    "length (filter is_call pre) = k"
    by auto
  moreover have "returned_at 0 v (gpt_attempts w q js st (k # [Suc k..<n]) e')"
    using gpt_attempts_hit [OF assms(3)] by (simp add: returned_at_def is_call_def)
  ultimately show ?thesis
    using returned_at_after [of 0 v _ pre k] upt_split [OF assms(1)] by simp
qed

lemma claude_attempts_skip:
  "anthropic_client w = None \<Longrightarrow>
   \<forall>i \<in> set xs. claude_returns w q raw js i = None \<Longrightarrow>
   \<exists>pre e'. claude_attempts w q raw js st (xs @ ys) e = after pre (claude_attempts w q raw js st ys e') \<and>
            length (filter is_call pre) = length xs"
proof (induction xs arbitrary: e)
  case Nil
  have "claude_attempts w q raw js st ([] @ ys) e = after [] (claude_attempts w q raw js st ys e)"
    by (simp add: after_def)
  then show ?case by (metis filter.simps(1) list.size(3))
next
  case (Cons x xs)
  from Cons.prems have rest: "\<forall>i \<in> set xs. claude_returns w q raw js i = None"
    by simp
  from Cons.prems have x: "claude_returns w q raw js x = None"
    by simp
  obtain e1 evs where step:
    "claude_attempts w q raw js st (x # xs @ ys) e = after evs (claude_attempts w q raw js st (xs @ ys) e1)"
    "length (filter is_call evs) = 1"
    using x Cons.prems
    by (auto simp: claude_returns_def is_call_def claude_sent_def split: sum.splits if_splits)
  from Cons.IH [OF Cons.prems(1) rest, of e1] obtain pre e' where
    ih: "claude_attempts w q raw js st (xs @ ys) e1 = after pre (claude_attempts w q raw js st ys e')"
      "length (filter is_call pre) = length xs"
    by blast
  have "claude_attempts w q raw js st ((x # xs) @ ys) e = after (evs @ pre) (claude_attempts w q raw js st ys e')"
    using step(1) ih(1) by (simp add: after_def)
  moreover have "length (filter is_call (evs @ pre)) = length (x # xs)"
    using step(2) ih(2) by simp
  ultimately show ?case by blast
qed

lemma claude_attempts_hit:
  "anthropic_client w = None \<Longrightarrow>
   claude_returns w q raw js k = Some v \<Longrightarrow>
   claude_attempts w q raw js st (k # ys) e = (Inr v, [Called_Anthropic q])"
  by (auto simp: claude_returns_def claude_sent_def split: sum.splits if_splits)

lemma claude_first_return:
  assumes "anthropic_client w = None" and "k < n" and "\<forall>i<k. claude_returns w q raw js i = None" and "claude_returns w q raw js k = Some v"
  shows "returned_at k v (claude_attempts w q raw js st [0..<n] e)"
proof -
  from assms have "\<forall>i \<in> set [0..<k]. claude_returns w q raw js i = None"
    by simp
  from claude_attempts_skip [OF assms(1) this, of st "k # [Suc k..<n]" e] obtain pre e' where
    "claude_attempts w q raw js st ([0..<k] @ k # [Suc k..<n]) e =
       after pre (claude_attempts w q raw js st (k # [Suc k..<n]) e')"
    "length (filter is_call pre) = k"
    by auto
  moreover have "returned_at 0 v (claude_attempts w q raw js st (k # [Suc k..<n]) e')"
    using claude_attempts_hit [of w q raw js k v] assms by (simp add: returned_at_def is_call_def)
  ultimately show ?thesis
    using returned_at_after [of 0 v _ pre k] upt_split [of k n] assms by simp
qed

lemma gemini_attempts_skip:
  "\<forall>i \<in> set xs. gemini_returns w (Inr g) raw js i = None \<Longrightarrow>
   \<exists>pre e'. gemini_attempts w (Inr g) raw js st (xs @ ys) e = after pre (gemini_attempts w (Inr g) raw js st ys e') \<and>
            length (filter is_call pre) = length xs"
proof (induction xs arbitrary: e)
  case Nil
  have "gemini_attempts w (Inr g) raw js st ([] @ ys) e = after [] (gemini_attempts w (Inr g) raw js st ys e)"
    by (simp add: after_def)
  then show ?case by (metis filter.simps(1) list.size(3))
next
  case (Cons x xs)
  from Cons.prems have rest: "\<forall>i \<in> set xs. gemini_returns w (Inr g) raw js i = None"
    by simp
  from Cons.prems have x: "gemini_returns w (Inr g) raw js x = None"
    by simp
  obtain e1 evs where step:
    "gemini_attempts w (Inr g) raw js st (x # xs @ ys) e = after evs (gemini_attempts w (Inr g) raw js st (xs @ ys) e1)"
    "length (filter is_call evs) = 1"
    using x Cons.prems
    by (auto simp: gemini_returns_def is_call_def gemini_sent_def split: sum.splits if_splits)
  from Cons.IH [OF rest, of e1] obtain pre e' where
    ih: "gemini_attempts w (Inr g) raw js st (xs @ ys) e1 = after pre (gemini_attempts w (Inr g) raw js st ys e')"
      "length (filter is_call pre) = length xs"
    by blast
  have "gemini_attempts w (Inr g) raw js st ((x # xs) @ ys) e = after (evs @ pre) (gemini_attempts w (Inr g) raw js st ys e')"
    using step(1) ih(1) by (simp add: after_def)
  moreover have "length (filter is_call (evs @ pre)) = length (x # xs)"
    using step(2) ih(2) by simp
  ultimately show ?case by blast
qed

lemma gemini_attempts_hit:
  "gemini_returns w (Inr g) raw js k = Some v \<Longrightarrow>
   gemini_attempts w (Inr g) raw js st (k # ys) e = (Inr v, [Called_Gemini g])"
  by (auto simp: gemini_returns_def gemini_sent_def split: sum.splits if_splits)

lemma gemini_first_return:
  assumes "k < n" and "\<forall>i<k. gemini_returns w (Inr g) raw js i = None" and "gemini_returns w (Inr g) raw js k = Some v"
  shows "returned_at k v (gemini_attempts w (Inr g) raw js st [0..<n] e)"
proof -
  from assms have "\<forall>i \<in> set [0..<k]. gemini_returns w (Inr g) raw js i = None"
    by simp
  from gemini_attempts_skip [OF this, of st "k # [Suc k..<n]" e] obtain pre e' where
    "gemini_attempts w (Inr g) raw js st ([0..<k] @ k # [Suc k..<n]) e =
       after pre (gemini_attempts w (Inr g) raw js st (k # [Suc k..<n]) e')"
    "length (filter is_call pre) = k"
    by auto
  moreover have "returned_at 0 v (gemini_attempts w (Inr g) raw js st (k # [Suc k..<n]) e')"
    using gemini_attempts_hit [of w g raw js k v] assms by (simp add: returned_at_def is_call_def)
  ultimately show ?thesis
    using returned_at_after [of 0 v _ pre k] upt_split [of k n] assms by simp
qed

lemma hf_attempts_skip:
  "\<forall>i \<in> set xs. hf_returns w q i = None \<Longrightarrow>
   \<exists>pre. hf_attempts w q st (xs @ ys) = after pre (hf_attempts w q st ys) \<and>
            length (filter is_call pre) = length xs"
proof (induction xs)
  case Nil
  have "hf_attempts w q st ([] @ ys) = after [] (hf_attempts w q st ys)"
    by (simp add: after_def)
  then show ?case by (metis filter.simps(1) list.size(3))
next
  case (Cons x xs)
  from Cons.prems have rest: "\<forall>i \<in> set xs. hf_returns w q i = None"
    by simp
  from Cons.prems have x: "hf_returns w q x = None"
    by simp
  obtain evs where step:
    "hf_attempts w q st (x # xs @ ys) = after evs (hf_attempts w q st (xs @ ys))"
    "length (filter is_call evs) = 1"
    using x Cons.prems
    by (auto simp: hf_returns_def is_call_def  split: sum.splits if_splits)
  from Cons.IH [OF rest] obtain pre where
    ih: "hf_attempts w q st (xs @ ys) = after pre (hf_attempts w q st ys)"
      "length (filter is_call pre) = length xs"
    by blast
  have "hf_attempts w q st ((x # xs) @ ys) = after (evs @ pre) (hf_attempts w q st ys)"
    using step(1) ih(1) by (simp add: after_def)
  moreover have "length (filter is_call (evs @ pre)) = length (x # xs)"
    using step(2) ih(2) by simp
  ultimately show ?case by blast
qed

lemma hf_attempts_hit:
  "hf_returns w q k = Some v \<Longrightarrow>
   hf_attempts w q st (k # ys) = (Inr v, [Called_HF q])"
  by (auto simp: hf_returns_def  split: sum.splits if_splits)

lemma hf_first_return:
  assumes "k < n" and "\<forall>i<k. hf_returns w q i = None" and "hf_returns w q k = Some v"
  shows "returned_at k v (hf_attempts w q st [0..<n])"
proof -
  from assms have "\<forall>i \<in> set [0..<k]. hf_returns w q i = None"
    by simp
  from hf_attempts_skip [OF this, of st "k # [Suc k..<n]"] obtain pre where
    "hf_attempts w q st ([0..<k] @ k # [Suc k..<n]) =
       after pre (hf_attempts w q st (k # [Suc k..<n]))"
    "length (filter is_call pre) = k"
    by auto
  moreover have "returned_at 0 v (hf_attempts w q st (k # [Suc k..<n]))"
    using hf_attempts_hit [of w q k v] assms by (simp add: returned_at_def is_call_def)
  ultimately show ?thesis
    using returned_at_after [of 0 v _ pre k] upt_split [of k n] assms by simp
qed

lemma claude_returns_client: "claude_returns w q raw js k = Some v \<Longrightarrow> anthropic_client w = None"
  by (auto simp: claude_returns_def claude_try_def split: option.splits)

lemma gemini_returns_request: "gemini_returns w q raw js k = Some v \<Longrightarrow> \<exists>g. q = Inr g"
  by (cases q) (auto simp: gemini_returns_def gemini_try_def)

section \<open>Decoding concrete texts\<close>

lemma json_decode_a1: \<open>json_decode ''{"a": 1}'' = Inr (JObj [(''a'', JInt 1)])\<close>
  by (simp add: json_decode_def parse_nat_def is_ws_def is_digit_def)

lemma json_decode_a1_object: "json_decode a1_object = Inr (JObj [(''a'', JInt 1)])"
  by (simp add: a1_object_def json_decode_a1)

lemma json_decode_sure: "json_decode sure_thanks = Inl (JSONDecodeError ''Expecting value'')"
  by (simp add: sure_thanks_def json_decode_def parse_nat_def is_ws_def is_digit_def)

lemma extract_sure: \<open>extract_json sure_thanks = ''{"a": 1}''\<close>
  by (simp add: sure_thanks_def extract_json_def py_slice_def py_rfind_def py_bound_def)


lemma json_decode_empty: "json_decode [] = Inl (JSONDecodeError ''Expecting value'')"
  by (simp add: json_decode_def)


section \<open>Structured output\<close>

text \<open>
  C1, as stated: every family takes the text from the first opening to the last closing
  brace and returns its decoding. The object embedded in the example response decodes, yet
  the Claude-style caller, given that response, does not return it: it decodes the whole
  text, which fails.
\<close>

theorem json_extraction_counterexample:
  "json_decode (extract_json sure_thanks) = Inr (JObj [(''a'', JInt 1)]) \<and>
   fst (complete_text_claude (answering_world sure_thanks)
          ((ask ''claude-2.1'' ''q'')\<lparr>json_object := True\<rparr>))
     \<noteq> Inr (Json (JObj [(''a'', JInt 1)]))"
  by (simp add: extract_sure json_decode_a1 complete_text_claude_def answering_world_def
      failing_world_def ask_def claude_try_def block_text_def first_def loads_def
      json_decode_sure raise_var_def)

text \<open>
  C1, amended: with \<^verbatim>\<open>json_object\<close> set, the OpenAI-style caller decodes the text from the
  first opening to the last closing brace of the response and returns the result, at
  whichever attempt is the first to return. The Claude-style and the multimodal caller,
  with \<^verbatim>\<open>return_raw\<close> unset, decode the whole response text with no extraction, and
  return the result when the whole text decodes.
\<close>

theorem json_extraction:
  "k < nat (max_retry rq) \<Longrightarrow> json_object rq \<Longrightarrow>
   ((\<forall>i<k. gpt_returns w (gpt_request rq) True i = None) \<and>
    openai_create w k (gpt_request rq) = Inr ((pre @ CHR ''{'' # mid @ CHR ''}'' # post) # others) \<and>
    CHR ''{'' \<notin> set pre \<and> CHR ''}'' \<notin> set post \<and>
    json_loads w (CHR ''{'' # mid @ [CHR ''}'']) = Inr j
    \<longrightarrow> fst (get_gpt_output w rq) = Inr (Json j)) \<and>
   (\<not> return_raw rq \<and>
    (\<forall>i<k. claude_returns w (claude_request rq) False True i = None) \<and>
    anthropic_client w = None \<and>
    anthropic_create w k (claude_request rq) = Inr (Text_Block t # blocks) \<and>
    json_loads w t = Inr j
    \<longrightarrow> fst (complete_text_claude w rq) = Inr (Json j)) \<and>
   (\<not> return_raw rq \<and> gemini_setup w = None \<and>
    gemini_request rq (gemini_messages rq) = Inr g \<and>
    (\<forall>i<k. gemini_returns w (Inr g) False True i = None) \<and>
    gemini_call w k g = Inr (Gemini_Response (Some t)) \<and>
    json_loads w t = Inr j
    \<longrightarrow> fst (complete_text_gemini w rq) = Inr (Json j)) \<and>
   (\<not> return_raw rq \<and> anthropic_client w = None \<and>
    anthropic_create w k (claude_request rq) = Inr (Text_Block t # blocks) \<and>
    json_loads w t = Inl ex
    \<longrightarrow> claude_returns w (claude_request rq) (return_raw rq) (json_object rq) k = None) \<and>
   (\<not> return_raw rq \<and> gemini_call w k g = Inr (Gemini_Response (Some t)) \<and>
    json_loads w t = Inl ex
    \<longrightarrow> gemini_returns w (Inr g) (return_raw rq) (json_object rq) k = None)"
proof (intro conjI impI)
  assume k: "k < nat (max_retry rq)" and js: "json_object rq"
  {
    assume "\<not> return_raw rq \<and> anthropic_client w = None \<and>
      anthropic_create w k (claude_request rq) = Inr (Text_Block t # blocks) \<and>
      json_loads w t = Inl ex"
    with js show "claude_returns w (claude_request rq) (return_raw rq) (json_object rq) k = None"
      by (simp add: claude_returns_def claude_try_def block_text_def first_def loads_def)
  }
  {
    assume "\<not> return_raw rq \<and> gemini_call w k g = Inr (Gemini_Response (Some t)) \<and>
      json_loads w t = Inl ex"
    with js show "gemini_returns w (Inr g) (return_raw rq) (json_object rq) k = None"
      by (simp add: gemini_returns_def gemini_try_def loads_def)
  }
  {
    assume a: "(\<forall>i<k. gpt_returns w (gpt_request rq) True i = None) \<and>
      openai_create w k (gpt_request rq) = Inr ((pre @ CHR ''{'' # mid @ CHR ''}'' # post) # others) \<and>
      CHR ''{'' \<notin> set pre \<and> CHR ''}'' \<notin> set post \<and>
      json_loads w (CHR ''{'' # mid @ [CHR ''}'']) = Inr j"
    then have "gpt_returns w (gpt_request rq) True k = Some (Json j)"
      by (simp add: gpt_returns_def first_def extract_json_braces)
    with a k have "returned_at k (Json j)
        (gpt_attempts w (gpt_request rq) True (sleep_time rq) [0..<nat (max_retry rq)] Unbound)"
      by (intro gpt_first_return) auto
    with js show "fst (get_gpt_output w rq) = Inr (Json j)"
      by (simp add: get_gpt_output_def returned_at_def)
  }
  {
    assume a: "\<not> return_raw rq \<and>
      (\<forall>i<k. claude_returns w (claude_request rq) False True i = None) \<and>
      anthropic_client w = None \<and>
      anthropic_create w k (claude_request rq) = Inr (Text_Block t # blocks) \<and>
      json_loads w t = Inr j"
    then have "claude_returns w (claude_request rq) False True k = Some (Json j)"
      by (simp add: claude_returns_def claude_try_def block_text_def first_def loads_def)
    with a k have "returned_at k (Json j)
        (claude_attempts w (claude_request rq) False True (sleep_time rq)
           [0..<nat (max_retry rq)] Bound_None)"
      by (intro claude_first_return) auto
    with js a show "fst (complete_text_claude w rq) = Inr (Json j)"
      by (simp add: complete_text_claude_def returned_at_def)
  }
  {
    assume a: "\<not> return_raw rq \<and> gemini_setup w = None \<and>
      gemini_request rq (gemini_messages rq) = Inr g \<and>
      (\<forall>i<k. gemini_returns w (Inr g) False True i = None) \<and>
      gemini_call w k g = Inr (Gemini_Response (Some t)) \<and>
      json_loads w t = Inr j"
    then have "gemini_returns w (Inr g) False True k = Some (Json j)"
      by (simp add: gemini_returns_def gemini_try_def loads_def)
    with a k have "returned_at k (Json j)
        (gemini_attempts w (Inr g) False True (sleep_time rq)
           [0..<nat (max_retry rq)] Bound_None)"
      by (intro gemini_first_return) auto
    with js a show "fst (complete_text_gemini w rq) = Inr (Json j)"
      by (simp add: complete_text_gemini_def returned_at_def)
  }
qed

theorem json_extraction_witness:
  "fst (get_gpt_output (answering_world sure_thanks)
          ((ask ''gpt-4-turbo'' ''q'')\<lparr>json_object := True\<rparr>))
     = Inr (Json (JObj [(''a'', JInt 1)])) \<and>
   fst (complete_text_claude (answering_world a1_object)
          ((ask ''claude-2.1'' ''q'')\<lparr>json_object := True\<rparr>))
     = Inr (Json (JObj [(''a'', JInt 1)])) \<and>
   fst (complete_text_gemini (answering_world a1_object)
          ((ask ''gemini-1.5-pro'' ''q'')\<lparr>json_object := True\<rparr>))
     = Inr (Json (JObj [(''a'', JInt 1)]))"
proof -
  have 1: "fst (get_gpt_output (answering_world sure_thanks)
          ((ask ''gpt-4-turbo'' ''q'')\<lparr>json_object := True\<rparr>))
     = Inr (Json (JObj [(''a'', JInt 1)]))"
    using json_extraction [where k = 0 and w = "answering_world sure_thanks"
        and rq = "(ask ''gpt-4-turbo'' ''q'')\<lparr>json_object := True\<rparr>"
        and pre = "''Sure! ''" and mid = "butlast (tl a1_object)" and post = "'' Thanks''"
        and others = "[]" and j = "JObj [(''a'', JInt 1)]"]
      json_decode_a1_object
    by (simp add: ask_def answering_world_def failing_world_def sure_thanks_def a1_object_def)
  have 2: "fst (complete_text_claude (answering_world a1_object)
          ((ask ''claude-2.1'' ''q'')\<lparr>json_object := True\<rparr>))
     = Inr (Json (JObj [(''a'', JInt 1)]))"
    using json_extraction [where k = 0 and w = "answering_world a1_object"
        and rq = "(ask ''claude-2.1'' ''q'')\<lparr>json_object := True\<rparr>"
        and t = a1_object and blocks = "[]" and j = "JObj [(''a'', JInt 1)]"]
      json_decode_a1_object
    by (simp add: ask_def answering_world_def failing_world_def)
  have 3: "fst (complete_text_gemini (answering_world a1_object)
          ((ask ''gemini-1.5-pro'' ''q'')\<lparr>json_object := True\<rparr>))
     = Inr (Json (JObj [(''a'', JInt 1)]))"
    using json_extraction [where k = 0 and w = "answering_world a1_object"
        and rq = "(ask ''gemini-1.5-pro'' ''q'')\<lparr>json_object := True\<rparr>"
        and t = a1_object and j = "JObj [(''a'', JInt 1)]"
        and g = "Generate_Content ''gemini-1.5-pro''
                   (''You are a helpful assistant designed to output in JSON format. '' @ ''q'')
                   2048 1 []"]
      json_decode_a1_object
    by (simp add: ask_def answering_world_def failing_world_def gemini_setup_def
        gemini_request_def gemini_messages_def first_def)
  from 1 2 3 show ?thesis by simp
qed




section \<open>Returning early\<close>

text \<open>
  C8, as stated: a backend call that succeeds at an attempt before the bound makes the
  caller return at once, with no sleep. With \<^verbatim>\<open>json_object\<close> set, the OpenAI-style backend
  succeeds at attempt 0 of 2 with a text that does not decode, and the caller calls it a
  second time and returns what the second attempt gives. The Claude-style backend succeeds
  at attempt 0 of 2 with a response whose first block is a tool use: reading its text
  raises, and the caller sleeps and calls the backend again.
\<close>

theorem early_return_counterexample:
  "openai_create stubborn_world 0
       (gpt_request ((ask ''gpt-4-turbo'' ''q'')\<lparr>json_object := True, max_retry := 2\<rparr>))
     = Inr [''nope''] \<and>
   get_gpt_output stubborn_world
       ((ask ''gpt-4-turbo'' ''q'')\<lparr>json_object := True, max_retry := 2\<rparr>)
     = (Inr (Json (JObj [])),
        [Called_OpenAI
           (gpt_request ((ask ''gpt-4-turbo'' ''q'')\<lparr>json_object := True, max_retry := 2\<rparr>)),
         Printed (Result_Line (Text [])),
         Printed (Json_Error_Line 0 (JSONDecodeError ''Expecting value'')),
         Called_OpenAI
           (gpt_request ((ask ''gpt-4-turbo'' ''q'')\<lparr>json_object := True, max_retry := 2\<rparr>))]) \<and>
   anthropic_create tool_use_world 0
       (claude_request ((ask ''claude-2.1'' ''q'')\<lparr>max_retry := 2, sleep_time := 5\<rparr>))
     = Inr [Tool_Use ''search''] \<and>
   complete_text_claude tool_use_world
       ((ask ''claude-2.1'' ''q'')\<lparr>max_retry := 2, sleep_time := 5\<rparr>)
     = (Inr (Text ''pong''),
        [Called_Anthropic
           (claude_request ((ask ''claude-2.1'' ''q'')\<lparr>max_retry := 2, sleep_time := 5\<rparr>)),
         Printed (Retry_Line 0 (KeyError ''text'') 5),
         Slept 5,
         Called_Anthropic
           (claude_request ((ask ''claude-2.1'' ''q'')\<lparr>max_retry := 2, sleep_time := 5\<rparr>))])"
proof -
  have up: "[0..<2] = [0, Suc 0]"
    by (simp add: upt_rec)
  have dec: "json_decode ''{}'' = Inr (JObj [])"
    by (simp add: json_decode_def is_ws_def)
  have ex: "extract_json ''{}'' = ''{}''"
    by (simp add: extract_json_def py_slice_def py_rfind_def py_bound_def)
  have ex2: "extract_json ''nope'' = []"
    by (simp add: extract_json_def py_slice_def py_rfind_def py_bound_def)
  show ?thesis
    by (simp add: get_gpt_output_def stubborn_world_def failing_world_def ask_def up first_def
        ex ex2 dec json_decode_empty complete_text_claude_def tool_use_world_def
        claude_try_def claude_sent_def block_text_def)
qed

text \<open>
  C8, amended: let no attempt before attempt \<open>k\<close>, below the bound, return. If at attempt
  \<open>k\<close> the backend call succeeds, the reading of the result from the response does not
  raise (the completion has a first choice; unless the raw response is asked for, the
  first block of the Claude-style response is a text block and the multimodal response has
  a text) and, where the text is to be decoded as JSON, it decodes, then the caller returns
  that attempt's value, the backend call of attempt \<open>k\<close> is its last effect, so nothing is
  slept after it, and it has made \<open>k + 1\<close> backend calls, so no later attempt runs. This
  holds for the four callers; the multimodal caller must have passed its set-up, and the
  local caller its loading and tokenizing.
\<close>

theorem first_success_returns:
  "k < nat (max_retry rq) \<Longrightarrow>
   ((\<forall>i<k. gpt_returns w (gpt_request rq) (json_object rq) i = None) \<and>
    openai_create w k (gpt_request rq) = Inr (t # others) \<and>
    (json_object rq \<longrightarrow> json_loads w (extract_json t) = Inr j) \<and>
    v = (if json_object rq then Json j else Text t)
    \<longrightarrow> returned_at k v (get_gpt_output w rq)) \<and>
   ((\<forall>i<k. claude_returns w (claude_request rq) (return_raw rq) (json_object rq) i = None) \<and>
    anthropic_client w = None \<and>
    anthropic_create w k (claude_request rq) = Inr blocks \<and>
    (if return_raw rq then v = Raw_Anthropic blocks
     else (\<exists>rest. blocks = Text_Block t # rest) \<and>
          (json_object rq \<longrightarrow> json_loads w t = Inr j) \<and>
          v = (if json_object rq then Json j else Text t))
    \<longrightarrow> returned_at k v (complete_text_claude w rq)) \<and>
   (gemini_setup w = None \<and> gemini_request rq (gemini_messages rq) = Inr g \<and>
    (\<forall>i<k. gemini_returns w (Inr g) (return_raw rq) (json_object rq) i = None) \<and>
    gemini_call w k g = Inr response \<and>
    (if return_raw rq then v = Raw_Gemini response
     else response = Gemini_Response (Some t) \<and>
          (json_object rq \<longrightarrow> json_loads w t = Inr j) \<and>
          v = (if json_object rq then Json j else Text t))
    \<longrightarrow> returned_at k v (complete_text_gemini w rq)) \<and>
   (hf_message rq = Inr msg \<and> split_1 (model rq) = Some name \<and>
    hf_lookup w name c = (Inr (hf_model, tokenizer), loads_made, c') \<and>
    tokenize w tokenizer msg = Inr encoded_input \<and>
    (\<forall>i<k. hf_returns w
              (HF_Generate hf_model encoded_input (temperature rq) (max_tokens rq) (kwargs rq)) i
            = None) \<and>
    hf_generate w k
      (HF_Generate hf_model encoded_input (temperature rq) (max_tokens rq) (kwargs rq)) = Inr t \<and>
    v = Text t
    \<longrightarrow> returned_at k v (fst (complete_text_hf w rq c)))"
proof (intro conjI impI)
  assume k: "k < nat (max_retry rq)"
  {
    assume a: "(\<forall>i<k. gpt_returns w (gpt_request rq) (json_object rq) i = None) \<and>
      openai_create w k (gpt_request rq) = Inr (t # others) \<and>
      (json_object rq \<longrightarrow> json_loads w (extract_json t) = Inr j) \<and>
      v = (if json_object rq then Json j else Text t)"
    then have "gpt_returns w (gpt_request rq) (json_object rq) k = Some v"
      by (simp add: gpt_returns_def first_def)
    with a k show "returned_at k v (get_gpt_output w rq)"
      unfolding get_gpt_output_def by (intro gpt_first_return) auto
  }
  {
    assume a: "(\<forall>i<k. claude_returns w (claude_request rq) (return_raw rq) (json_object rq) i = None) \<and>
      anthropic_client w = None \<and>
      anthropic_create w k (claude_request rq) = Inr blocks \<and>
      (if return_raw rq then v = Raw_Anthropic blocks
       else (\<exists>rest. blocks = Text_Block t # rest) \<and>
            (json_object rq \<longrightarrow> json_loads w t = Inr j) \<and>
            v = (if json_object rq then Json j else Text t))"
    then have "claude_returns w (claude_request rq) (return_raw rq) (json_object rq) k = Some v"
      by (auto simp: claude_returns_def claude_try_def block_text_def first_def loads_def
          split: if_splits)
    with a k have "returned_at k v
        (claude_attempts w (claude_request rq) (return_raw rq) (json_object rq) (sleep_time rq)
           [0..<nat (max_retry rq)] Bound_None)"
      by (intro claude_first_return) auto
    with a show "returned_at k v (complete_text_claude w rq)"
      by (simp add: complete_text_claude_def after_def)
  }
  {
    assume a: "gemini_setup w = None \<and> gemini_request rq (gemini_messages rq) = Inr g \<and>
      (\<forall>i<k. gemini_returns w (Inr g) (return_raw rq) (json_object rq) i = None) \<and>
      gemini_call w k g = Inr response \<and>
      (if return_raw rq then v = Raw_Gemini response
       else response = Gemini_Response (Some t) \<and>
            (json_object rq \<longrightarrow> json_loads w t = Inr j) \<and>
            v = (if json_object rq then Json j else Text t))"
    then have "gemini_returns w (Inr g) (return_raw rq) (json_object rq) k = Some v"
      by (auto simp: gemini_returns_def gemini_try_def loads_def split: if_splits)
    with a k have "returned_at k v
        (gemini_attempts w (Inr g) (return_raw rq) (json_object rq) (sleep_time rq)
           [0..<nat (max_retry rq)] Bound_None)"
      by (intro gemini_first_return) auto
    with a show "returned_at k v (complete_text_gemini w rq)"
      by (simp add: complete_text_gemini_def)
  }
  {
    assume a: "hf_message rq = Inr msg \<and> split_1 (model rq) = Some name \<and>
      hf_lookup w name c = (Inr (hf_model, tokenizer), loads_made, c') \<and>
      tokenize w tokenizer msg = Inr encoded_input \<and>
      (\<forall>i<k. hf_returns w
                (HF_Generate hf_model encoded_input (temperature rq) (max_tokens rq) (kwargs rq)) i
              = None) \<and>
      hf_generate w k
        (HF_Generate hf_model encoded_input (temperature rq) (max_tokens rq) (kwargs rq)) = Inr t \<and>
      v = Text t"
    then have "hf_returns w
        (HF_Generate hf_model encoded_input (temperature rq) (max_tokens rq) (kwargs rq)) k = Some v"
      by (simp add: hf_returns_def)
    with a k have r: "returned_at k v
        (hf_attempts w (HF_Generate hf_model encoded_input (temperature rq) (max_tokens rq) (kwargs rq))
           (sleep_time rq) [0..<nat (max_retry rq)])"
      by (intro hf_first_return) auto
    have nc: "filter is_call loads_made = []"
      using a by (auto simp: hf_lookup_def is_call_def split: option.splits sum.splits)
    from returned_at_after [OF r, of loads_made 0] nc a
    show "returned_at k v (fst (complete_text_hf w rq c))"
      by (simp add: complete_text_hf_def)
  }
qed

theorem first_success_returns_witness:
  "returned_at 2 (Text ''pong'')
     (get_gpt_output flaky_world ((ask ''gpt-4-turbo'' ''ping'')\<lparr>max_retry := 5\<rparr>)) \<and>
   returned_at 2 (Text ''pong'')
     (complete_text_claude flaky_world ((ask ''claude-2.1'' ''ping'')\<lparr>max_retry := 5\<rparr>)) \<and>
   returned_at 2 (Text ''pong'')
     (complete_text_gemini flaky_world ((ask ''gemini-1.5-pro'' ''ping'')\<lparr>max_retry := 5\<rparr>)) \<and>
   returned_at 2 (Text ''pong'')
     (fst (complete_text_hf flaky_world
             ((ask ''huggingface/codellama/CodeLlama-7b-hf'' ''ping'')\<lparr>max_retry := 5\<rparr>)
             Map.empty))"
proof -
  have 1: "returned_at 2 (Text ''pong'')
     (get_gpt_output flaky_world ((ask ''gpt-4-turbo'' ''ping'')\<lparr>max_retry := 5\<rparr>))"
    by (rule first_success_returns [where k = 2 and w = flaky_world and v = "Text ''pong''"
          and rq = "(ask ''gpt-4-turbo'' ''ping'')\<lparr>max_retry := 5\<rparr>"
          and t = "''pong''" and others = "[]" and j = JNull, THEN conjunct1, THEN mp])
      (simp_all add: ask_def flaky_world_def answering_world_def failing_world_def
        gpt_returns_def first_def)
  have 2: "returned_at 2 (Text ''pong'')
     (complete_text_claude flaky_world ((ask ''claude-2.1'' ''ping'')\<lparr>max_retry := 5\<rparr>))"
    by (rule first_success_returns [where k = 2 and w = flaky_world and v = "Text ''pong''"
          and rq = "(ask ''claude-2.1'' ''ping'')\<lparr>max_retry := 5\<rparr>"
          and t = "''pong''" and blocks = "[Text_Block ''pong'']" and j = JNull,
          THEN conjunct2, THEN conjunct1, THEN mp])
      (simp_all add: ask_def flaky_world_def answering_world_def failing_world_def
        claude_returns_def claude_try_def block_text_def first_def)
  have 3: "returned_at 2 (Text ''pong'')
     (complete_text_gemini flaky_world ((ask ''gemini-1.5-pro'' ''ping'')\<lparr>max_retry := 5\<rparr>))"
    by (rule first_success_returns [where k = 2 and w = flaky_world and v = "Text ''pong''"
          and rq = "(ask ''gemini-1.5-pro'' ''ping'')\<lparr>max_retry := 5\<rparr>"
          and t = "''pong''" and response = "Gemini_Response (Some ''pong'')" and j = JNull
          and g = "Generate_Content ''gemini-1.5-pro'' ''ping'' 2048 1 []",
          THEN conjunct2, THEN conjunct2, THEN conjunct1, THEN mp])
      (simp_all add: ask_def flaky_world_def answering_world_def failing_world_def
        gemini_returns_def gemini_try_def gemini_setup_def gemini_request_def
        gemini_messages_def first_def)
  have 4: "returned_at 2 (Text ''pong'')
     (fst (complete_text_hf flaky_world
             ((ask ''huggingface/codellama/CodeLlama-7b-hf'' ''ping'')\<lparr>max_retry := 5\<rparr>)
             Map.empty))"
    by (rule first_success_returns [where k = 2 and w = flaky_world and v = "Text ''pong''"
          and rq = "(ask ''huggingface/codellama/CodeLlama-7b-hf'' ''ping'')\<lparr>max_retry := 5\<rparr>"
          and msg = "Str ''ping''" and name = "''codellama/CodeLlama-7b-hf''" and c = Map.empty
          and hf_model = 1 and tokenizer = 2 and t = "''pong''"
          and loads_made = "[Loaded_Model ''codellama/CodeLlama-7b-hf'',
                             Loaded_Tokenizer ''codellama/CodeLlama-7b-hf'']"
          and c' = "Map.empty(''codellama/CodeLlama-7b-hf'' \<mapsto> (1, 2))"
          and encoded_input = "[1, 2, 3]",
          THEN conjunct2, THEN conjunct2, THEN conjunct2, THEN mp])
      (simp_all add: ask_def flaky_world_def answering_world_def failing_world_def
        hf_returns_def hf_message_def hf_lookup_def)
  from 1 2 3 4 show ?thesis by simp
qed

section \<open>The raw flag in the OpenAI-style caller\<close>

lemma gpt_attempts_result:
  "fst (gpt_attempts w q js st cnts error) = Inr v \<Longrightarrow>
   \<exists>k \<in> set cnts. \<exists>t others. openai_create w k q = Inr (t # others) \<and>
     (if js then (\<exists>j. json_loads w (extract_json t) = Inr j \<and> v = Json j) else v = Text t)"
proof (induction cnts arbitrary: error)
  case Nil
  then show ?case by simp
next
  case (Cons cnt cnts)
  show ?case
  proof (cases "gpt_returns w q js cnt")
    case None
    then obtain evs error' where
      "gpt_attempts w q js st (cnt # cnts) error = after evs (gpt_attempts w q js st cnts error')"
      by (auto simp: gpt_returns_def split: sum.splits if_splits)
    with Cons.prems have "fst (gpt_attempts w q js st cnts error') = Inr v"
      by simp
    from Cons.IH [OF this] show ?thesis
      by auto
  next
    case (Some u)
    from gpt_attempts_hit [OF Some] Cons.prems have "u = v"
      by simp
    with Some show ?thesis
      by (auto simp: gpt_returns_def first_def split: sum.splits if_splits list.splits)
  qed
qed

text \<open>
  C10. The OpenAI-style caller does not read \<^verbatim>\<open>return_raw\<close>: its result and its effects
  are the same for either value. Whatever it returns is the text of the first choice of an
  attempt's response, or with \<^verbatim>\<open>json_object\<close> set the decoding of the extraction from
  that text, and never the response itself.
\<close>

theorem gpt_ignores_return_raw:
  "get_gpt_output w (rq\<lparr>return_raw := b\<rparr>) = get_gpt_output w rq \<and>
   (\<forall>v. fst (get_gpt_output w rq) = Inr v \<longrightarrow>
      (\<exists>k t others. k < nat (max_retry rq) \<and>
         openai_create w k (gpt_request rq) = Inr (t # others) \<and>
         (if json_object rq then (\<exists>j. json_loads w (extract_json t) = Inr j \<and> v = Json j)
          else v = Text t)))"
proof (intro conjI allI impI)
  show "get_gpt_output w (rq\<lparr>return_raw := b\<rparr>) = get_gpt_output w rq"
    by (simp add: get_gpt_output_def gpt_request_def gpt_messages_def gpt_message_def)
next
  fix v
  assume "fst (get_gpt_output w rq) = Inr v"
  then have "fst (gpt_attempts w (gpt_request rq) (json_object rq) (sleep_time rq)
                    [0..<nat (max_retry rq)] Unbound) = Inr v"
    by (simp add: get_gpt_output_def)
  from gpt_attempts_result [OF this] obtain k t others where
    "k \<in> set [0..<nat (max_retry rq)]"
    "openai_create w k (gpt_request rq) = Inr (t # others)"
    "if json_object rq then (\<exists>j. json_loads w (extract_json t) = Inr j \<and> v = Json j)
     else v = Text t"
    by blast
  then show "\<exists>k t others. k < nat (max_retry rq) \<and>
         openai_create w k (gpt_request rq) = Inr (t # others) \<and>
         (if json_object rq then (\<exists>j. json_loads w (extract_json t) = Inr j \<and> v = Json j)
          else v = Text t)"
    by (intro exI [of _ k] exI [of _ t] exI [of _ others]) simp
qed

theorem gpt_ignores_return_raw_witness:
  "get_gpt_output (answering_world ''pong'') ((ask ''gpt-4-turbo'' ''ping'')\<lparr>return_raw := True\<rparr>)
     = get_gpt_output (answering_world ''pong'') (ask ''gpt-4-turbo'' ''ping'') \<and>
   fst (get_gpt_output (answering_world ''pong'') ((ask ''gpt-4-turbo'' ''ping'')\<lparr>return_raw := True\<rparr>))
     = Inr (Text ''pong'')"
proof -
  have "fst (get_gpt_output (answering_world ''pong'') (ask ''gpt-4-turbo'' ''ping''))
      = Inr (Text ''pong'')"
    by (simp add: get_gpt_output_def answering_world_def failing_world_def ask_def first_def)
  with gpt_ignores_return_raw [where w = "answering_world ''pong''"
      and rq = "ask ''gpt-4-turbo'' ''ping''" and b = True]
  show ?thesis
    by simp
qed

section \<open>The cache of local models\<close>

lemma hf_attempts_no_load: "filter is_load (snd (hf_attempts w q st cnts)) = []"
  by (induction cnts) (auto simp: is_load_def split: sum.splits)

lemma hf_lookup_keeps: "c key = Some pair \<Longrightarrow> snd (snd (hf_lookup w name c)) key = Some pair"
  by (auto simp: hf_lookup_def split: option.splits sum.splits)

lemma complete_text_hf_cache:
  "snd (complete_text_hf w rq c) =
     (case hf_message rq of
        Inl e \<Rightarrow> c
      | Inr msg \<Rightarrow> (case split_1 (model rq) of None \<Rightarrow> c | Some name \<Rightarrow> snd (snd (hf_lookup w name c))))"
  by (auto simp: complete_text_hf_def split: sum.splits option.splits prod.splits)

lemma complete_text_hf_keeps:
  "c key = Some pair \<Longrightarrow> snd (complete_text_hf w rq c) key = Some pair"
  by (simp add: complete_text_hf_cache hf_lookup_keeps split: sum.splits option.splits)

lemma complete_text_hf_hit:
  "split_1 (model rq) = Some name \<Longrightarrow> c name = Some pair \<Longrightarrow>
   filter is_load (snd (fst (complete_text_hf w rq c))) = [] \<and> snd (complete_text_hf w rq c) = c"
  by (auto simp: complete_text_hf_def hf_lookup_def hf_attempts_no_load
      split: sum.splits option.splits prod.splits)

lemma complete_text_hf_miss:
  "split_1 (model rq) = Some name \<Longrightarrow> c name = None \<Longrightarrow> hf_message rq = Inr msg \<Longrightarrow>
   model_from_pretrained w name = Inr hf_model \<Longrightarrow>
   tokenizer_from_pretrained w name = Inr tokenizer \<Longrightarrow>
   filter is_load (snd (fst (complete_text_hf w rq c))) = [Loaded_Model name, Loaded_Tokenizer name] \<and>
   snd (complete_text_hf w rq c) = c(name \<mapsto> (hf_model, tokenizer))"
  by (auto simp: complete_text_hf_def hf_lookup_def hf_attempts_no_load is_load_def
      split: sum.splits option.splits prod.splits)

lemma later_calls_keep:
  "c key = Some pair \<Longrightarrow> later_calls calls c key = Some pair"
  unfolding later_calls_def
  by (induction calls arbitrary: c) (auto simp: complete_text_hf_keeps)

lemma complete_text_hf_served:
  "split_1 (model rq) = Some name \<Longrightarrow> c name = Some (hf_model, tokenizer) \<Longrightarrow>
   hf_message rq = Inr msg \<Longrightarrow>
   fst (complete_text_hf w rq c) =
     (case tokenize w tokenizer msg of
        Inl e \<Rightarrow> (Inl e, [])
      | Inr encoded_input \<Rightarrow>
          hf_attempts w
            (HF_Generate hf_model encoded_input (temperature rq) (max_tokens rq) (kwargs rq))
            (sleep_time rq) [0..<nat (max_retry rq)])"
  by (simp add: complete_text_hf_def hf_lookup_def after_def split: sum.splits)

text \<open>
  C9, as stated: a second request for a checkpoint never loads it again, because the first
  call has cached the pair. When the tokenizer's load raises, the first call has loaded the
  model, raises and caches nothing, and the second call loads the model again.
\<close>

theorem checkpoint_loaded_once_counterexample:
  "complete_text_hf no_tokenizer_world (ask ''huggingface/codellama/CodeLlama-7b-hf'' ''ping'')
       Map.empty
     = ((Inl (SdkError ''OSError''),
         [Loaded_Model ''codellama/CodeLlama-7b-hf'',
          Loaded_Tokenizer ''codellama/CodeLlama-7b-hf'']),
        Map.empty) \<and>
   filter is_load
     (snd (fst (complete_text_hf no_tokenizer_world
                  (ask ''huggingface/codellama/CodeLlama-7b-hf'' ''again'')
                  (snd (complete_text_hf no_tokenizer_world
                          (ask ''huggingface/codellama/CodeLlama-7b-hf'' ''ping'') Map.empty)))))
     = [Loaded_Model ''codellama/CodeLlama-7b-hf'',
        Loaded_Tokenizer ''codellama/CodeLlama-7b-hf'']"
  by (simp add: complete_text_hf_def hf_message_def hf_lookup_def ask_def
      no_tokenizer_world_def failing_world_def is_load_def)

text \<open>
  C9, amended: the cache key is the model identifier after its first slash. A call for a
  checkpoint that is not cached, whose prompt concatenation does not raise and whose model
  and tokenizer both load, loads each once and caches the pair under the key; a call that
  finds the checkpoint cached loads nothing. After any further calls of the local caller,
  a call for the same checkpoint, in whatever world and for whatever prompt, is served
  from the cache: the look-up gives the cached pair, nothing is loaded, the prompt is
  tokenized with the cached tokenizer, generation runs on the cached model, and the cache
  stays as it is. No call removes or replaces an entry.
\<close>

theorem checkpoint_loaded_once:
  "split_1 (model rq1) = Some name \<Longrightarrow> split_1 (model rq2) = Some name \<Longrightarrow>
   hf_message rq1 = Inr msg \<Longrightarrow>
   model_from_pretrained w1 name = Inr hf_model \<Longrightarrow>
   tokenizer_from_pretrained w1 name = Inr tokenizer \<Longrightarrow>
   c1 = snd (complete_text_hf w1 rq1 c0) \<Longrightarrow> c2 = later_calls between c1 \<Longrightarrow>
   cached = (case c0 name of None \<Rightarrow> (hf_model, tokenizer) | Some pair \<Rightarrow> pair) \<Longrightarrow>
   c1 name = Some cached \<and>
   filter is_load (snd (fst (complete_text_hf w1 rq1 c0))) =
     (if c0 name = None then [Loaded_Model name, Loaded_Tokenizer name] else []) \<and>
   c2 name = Some cached \<and>
   hf_lookup w2 name c2 = (Inr cached, [], c2) \<and>
   filter is_load (snd (fst (complete_text_hf w2 rq2 c2))) = [] \<and>
   snd (complete_text_hf w2 rq2 c2) = c2 \<and>
   (hf_message rq2 = Inr msg2 \<longrightarrow>
      fst (complete_text_hf w2 rq2 c2) =
        (case tokenize w2 (snd cached) msg2 of
           Inl e \<Rightarrow> (Inl e, [])
         | Inr encoded_input \<Rightarrow>
             hf_attempts w2
               (HF_Generate (fst cached) encoded_input (temperature rq2) (max_tokens rq2)
                  (kwargs rq2))
               (sleep_time rq2) [0..<nat (max_retry rq2)])) \<and>
   (\<forall>key pair. c0 key = Some pair \<longrightarrow> c2 key = Some pair)"
proof -
  assume a: "split_1 (model rq1) = Some name" "split_1 (model rq2) = Some name"
    "hf_message rq1 = Inr msg" "model_from_pretrained w1 name = Inr hf_model"
    "tokenizer_from_pretrained w1 name = Inr tokenizer"
    "c1 = snd (complete_text_hf w1 rq1 c0)" "c2 = later_calls between c1"
    "cached = (case c0 name of None \<Rightarrow> (hf_model, tokenizer) | Some pair \<Rightarrow> pair)"
  have first:
    "c1 name = Some cached \<and>
     filter is_load (snd (fst (complete_text_hf w1 rq1 c0))) =
       (if c0 name = None then [Loaded_Model name, Loaded_Tokenizer name] else [])"
  proof (cases "c0 name")
    case None
    from complete_text_hf_miss [where c = c0 and w = w1 and rq = rq1 and name = name
        and msg = msg and hf_model = hf_model and tokenizer = tokenizer] a None
    show ?thesis
      by simp
  next
    case (Some pair)
    from complete_text_hf_hit [where c = c0 and w = w1 and rq = rq1 and name = name
        and pair = pair] a Some
    show ?thesis
      by simp
  qed
  then have kept: "c2 name = Some cached"
    using a(7) by (simp add: later_calls_keep)
  then have look: "hf_lookup w2 name c2 = (Inr cached, [], c2)"
    by (simp add: hf_lookup_def)
  from complete_text_hf_hit [where c = c2 and w = w2 and rq = rq2 and name = name
      and pair = cached] a kept
  have second: "filter is_load (snd (fst (complete_text_hf w2 rq2 c2))) = [] \<and>
      snd (complete_text_hf w2 rq2 c2) = c2"
    by simp
  have served: "hf_message rq2 = Inr msg2 \<longrightarrow>
      fst (complete_text_hf w2 rq2 c2) =
        (case tokenize w2 (snd cached) msg2 of
           Inl e \<Rightarrow> (Inl e, [])
         | Inr encoded_input \<Rightarrow>
             hf_attempts w2
               (HF_Generate (fst cached) encoded_input (temperature rq2) (max_tokens rq2)
                  (kwargs rq2))
               (sleep_time rq2) [0..<nat (max_retry rq2)])"
    using complete_text_hf_served [where c = c2 and w = w2 and rq = rq2 and name = name
        and hf_model = "fst cached" and tokenizer = "snd cached" and msg = msg2] a(2) kept
    by simp
  have "\<forall>key pair. c0 key = Some pair \<longrightarrow> c2 key = Some pair"
    using a(6) a(7) complete_text_hf_keeps [where c = c0 and w = w1 and rq = rq1]
    by (simp add: later_calls_keep)
  with first second kept look served show ?thesis
    by simp
qed

theorem checkpoint_loaded_once_witness:
  "split_1 ''huggingface/codellama/CodeLlama-7b-hf'' = Some ''codellama/CodeLlama-7b-hf'' \<and>
   snd (complete_text_hf failing_world (ask ''huggingface/codellama/CodeLlama-7b-hf'' ''ping'')
          Map.empty) ''codellama/CodeLlama-7b-hf'' = Some (1, 2) \<and>
   filter is_load
     (snd (fst (complete_text_hf failing_world
                  (ask ''huggingface/codellama/CodeLlama-7b-hf'' ''ping'') Map.empty)))
     = [Loaded_Model ''codellama/CodeLlama-7b-hf'', Loaded_Tokenizer ''codellama/CodeLlama-7b-hf''] \<and>
   fst (complete_text_hf (answering_world ''pong'')
          (ask ''huggingface/codellama/CodeLlama-7b-hf'' ''again'')
          (later_calls [(failing_world, ask ''huggingface/gpt2'' ''other'')]
             (snd (complete_text_hf failing_world
                     (ask ''huggingface/codellama/CodeLlama-7b-hf'' ''ping'') Map.empty))))
     = (Inr (Text ''pong''), [Called_HF (HF_Generate 1 [1, 2, 3] 1 2048 [])])"
  using checkpoint_loaded_once [where ?rq1.0 = "ask ''huggingface/codellama/CodeLlama-7b-hf'' ''ping''"
      and ?rq2.0 = "ask ''huggingface/codellama/CodeLlama-7b-hf'' ''again''"
      and name = "''codellama/CodeLlama-7b-hf''" and msg = "Str ''ping''"
      and ?msg2.0 = "Str ''again''"
      and ?w1.0 = failing_world and ?w2.0 = "answering_world ''pong''"
      and hf_model = 1 and tokenizer = 2 and ?c0.0 = Map.empty
      and between = "[(failing_world, ask ''huggingface/gpt2'' ''other'')]",
      OF _ _ _ _ _ refl refl refl]
  by (simp add: ask_def hf_message_def failing_world_def answering_world_def)

end
